theory Spec2Isabelle
  imports Main
begin

section \<open>JavaScript values\<close>

text \<open>
  The handlers of the front end receive untyped payloads (\<open>data: any\<close>, \<open>error: any\<close>).
  They are modelled as JSON values: \<open>undefined\<close>, \<open>null\<close>, booleans, integers, strings and
  plain objects (an association list of own properties, in insertion order, each key
  once). Arrays, functions and non-integral numbers do not occur in the model, and text
  is ASCII.
\<close>

datatype jsval =
    JUndefined
  | JNull
  | JBool bool
  | JNum int
  | JStr string
  | JObj "(string \<times> jsval) list"

datatype js_error = TypeError

text \<open>Truthiness, as \<open>if (v)\<close>, \<open>!v\<close> and \<open>v || d\<close> read it.\<close>

fun truthy :: "jsval \<Rightarrow> bool" where
  "truthy JUndefined = False"
| "truthy JNull = False"
| "truthy (JBool b) = b"
| "truthy (JNum n) = (n \<noteq> 0)"
| "truthy (JStr s) = (s \<noteq> [])"
| "truthy (JObj kvs) = True"

definition nullish :: "jsval \<Rightarrow> bool" where
  "nullish v = (v = JUndefined \<or> v = JNull)"

text \<open>\<open>a || b\<close> on values.\<close>

definition js_or :: "jsval \<Rightarrow> jsval \<Rightarrow> jsval" where
  "js_or a b = (if truthy a then a else b)"

text \<open>
  \<open>v.k\<close>: reading a property of \<open>undefined\<close> or \<open>null\<close> throws a TypeError; an object
  gives its own property or \<open>undefined\<close>; a string has \<open>length\<close>; any other read of a
  primitive gives \<open>undefined\<close>. None of the property names the code reads is a member of
  a built-in prototype, so inherited members play no part here.
\<close>

fun getProp :: "jsval \<Rightarrow> string \<Rightarrow> js_error + jsval" where
  "getProp JUndefined k = Inl TypeError"
| "getProp JNull k = Inl TypeError"
| "getProp (JObj kvs) k = Inr (case map_of kvs k of Some v \<Rightarrow> v | None \<Rightarrow> JUndefined)"
| "getProp (JStr s) k = Inr (if k = ''length'' then JNum (int (length s)) else JUndefined)"
| "getProp (JBool b) k = Inr JUndefined"
| "getProp (JNum n) k = Inr JUndefined"

text \<open>\<open>v?.k\<close>: \<open>undefined\<close> when \<open>v\<close> is \<open>undefined\<close> or \<open>null\<close>; it never throws.\<close>

fun optProp :: "jsval \<Rightarrow> string \<Rightarrow> jsval" where
  "optProp JUndefined k = JUndefined"
| "optProp JNull k = JUndefined"
| "optProp (JObj kvs) k = (case map_of kvs k of Some v \<Rightarrow> v | None \<Rightarrow> JUndefined)"
| "optProp (JStr s) k = (if k = ''length'' then JNum (int (length s)) else JUndefined)"
| "optProp (JBool b) k = JUndefined"
| "optProp (JNum n) k = JUndefined"

text \<open>
  \<open>{...v, date: d}\<close>: the own enumerable properties of \<open>v\<close> (none for \<open>undefined\<close>,
  \<open>null\<close>, booleans and numbers; the indexed characters for a string), then \<open>date\<close>,
  which keeps its place when \<open>v\<close> has it already.
\<close>

fun decimal :: "nat \<Rightarrow> string" where
  "decimal n = (if n < 10 then [char_of (48 + n)]
                else decimal (n div 10) @ [char_of (48 + n mod 10)])"

fun own_enumerable :: "jsval \<Rightarrow> (string \<times> jsval) list" where
  "own_enumerable (JObj kvs) = kvs"
| "own_enumerable (JStr s) = map (\<lambda>i. (decimal i, JStr [s ! i])) [0..<length s]"
| "own_enumerable v = []"

fun set_prop :: "string \<Rightarrow> jsval \<Rightarrow> (string \<times> jsval) list \<Rightarrow> (string \<times> jsval) list" where
  "set_prop k v [] = [(k, v)]"
| "set_prop k v ((k', v') # kvs) =
     (if k' = k then (k, v) # kvs else (k', v') # set_prop k v kvs)"

text \<open>
  \<open>a === b\<close>: primitives are compared by value; two objects are equal only when they are
  the same object, and an object that arrives in a payload is never the one stored
  earlier.
\<close>

fun strict_eq :: "jsval \<Rightarrow> jsval \<Rightarrow> bool" where
  "strict_eq (JObj a) v = False"
| "strict_eq v (JObj b) = False"
| "strict_eq a b = (a = b)"

text \<open>
  Conversion to a string, as string concatenation, a template literal and a write to a
  text property of an element do it. A plain object prints as \<open>[object Object]\<close> through
  the inherited \<open>toString\<close>; an object whose own \<open>toString\<close> property hides the inherited
  one cannot be converted (a JSON value is never callable) and the conversion throws.
\<close>

fun js_toString :: "jsval \<Rightarrow> js_error + string" where
  "js_toString JUndefined = Inr ''undefined''"
| "js_toString JNull = Inr ''null''"
| "js_toString (JBool b) = Inr (if b then ''true'' else ''false'')"
| "js_toString (JNum n) = Inr (if n < 0 then CHR ''-'' # decimal (nat (- n)) else decimal (nat n))"
| "js_toString (JStr s) = Inr s"
| "js_toString (JObj kvs) =
     (case map_of kvs ''toString'' of None \<Rightarrow> Inr ''[object Object]'' | Some f \<Rightarrow> Inl TypeError)"

text \<open>
  The error object a thrown TypeError is caught as. The wording of its message is the
  engine's; what the code depends on is that it is a string.
\<close>

definition thrown :: "js_error \<Rightarrow> jsval" where
  "thrown e = JObj [(''message'', JStr ''Cannot read properties of undefined'')]"

text \<open>The HTTP requests the front end sends: the path, and the JSON body or the names of the files.\<close>

datatype request =
    GET string
  | POST string jsval
  | POST_files string "string list"

section \<open>Error translation (services/errorHandler.ts)\<close>

text \<open>
  \<open>ErrorCodes\<close>: each code is the string of its own name.
\<close>

datatype ErrorCode =
    INVALID_API_KEY
  | MISSING_API_KEY
  | EXPIRED_API_KEY
  | INVALID_DOCUMENT_FORMAT
  | DOCUMENT_TOO_LARGE
  | DOCUMENT_PROCESSING_FAILED
  | NO_DOCUMENTS_PROVIDED
  | INVALID_BRIEF_TYPE
  | INVALID_JURISDICTION
  | GENERATION_FAILED
  | GENERATION_TIMEOUT
  | NETWORK_ERROR
  | SERVER_ERROR
  | SERVICE_UNAVAILABLE
  | MISSING_REQUIRED_FIELD
  | INVALID_INPUT
  | RATE_LIMIT_EXCEEDED
  | UNKNOWN_ERROR

fun code_name :: "ErrorCode \<Rightarrow> string" where
  "code_name INVALID_API_KEY = ''INVALID_API_KEY''"
| "code_name MISSING_API_KEY = ''MISSING_API_KEY''"
| "code_name EXPIRED_API_KEY = ''EXPIRED_API_KEY''"
| "code_name INVALID_DOCUMENT_FORMAT = ''INVALID_DOCUMENT_FORMAT''"
| "code_name DOCUMENT_TOO_LARGE = ''DOCUMENT_TOO_LARGE''"
| "code_name DOCUMENT_PROCESSING_FAILED = ''DOCUMENT_PROCESSING_FAILED''"
| "code_name NO_DOCUMENTS_PROVIDED = ''NO_DOCUMENTS_PROVIDED''"
| "code_name INVALID_BRIEF_TYPE = ''INVALID_BRIEF_TYPE''"
| "code_name INVALID_JURISDICTION = ''INVALID_JURISDICTION''"
| "code_name GENERATION_FAILED = ''GENERATION_FAILED''"
| "code_name GENERATION_TIMEOUT = ''GENERATION_TIMEOUT''"
| "code_name NETWORK_ERROR = ''NETWORK_ERROR''"
| "code_name SERVER_ERROR = ''SERVER_ERROR''"
| "code_name SERVICE_UNAVAILABLE = ''SERVICE_UNAVAILABLE''"
| "code_name MISSING_REQUIRED_FIELD = ''MISSING_REQUIRED_FIELD''"
| "code_name INVALID_INPUT = ''INVALID_INPUT''"
| "code_name RATE_LIMIT_EXCEEDED = ''RATE_LIMIT_EXCEEDED''"
| "code_name UNKNOWN_ERROR = ''UNKNOWN_ERROR''"

definition all_codes :: "ErrorCode list" where
  "all_codes =
     [INVALID_API_KEY, MISSING_API_KEY, EXPIRED_API_KEY,
      INVALID_DOCUMENT_FORMAT, DOCUMENT_TOO_LARGE, DOCUMENT_PROCESSING_FAILED,
      NO_DOCUMENTS_PROVIDED, INVALID_BRIEF_TYPE, INVALID_JURISDICTION,
      GENERATION_FAILED, GENERATION_TIMEOUT, NETWORK_ERROR,
      SERVER_ERROR, SERVICE_UNAVAILABLE, MISSING_REQUIRED_FIELD,
      INVALID_INPUT, RATE_LIMIT_EXCEEDED, UNKNOWN_ERROR]"

definition ErrorCodes :: "string list" where
  "ErrorCodes = map code_name all_codes"

text \<open>\<open>Omit<ErrorDetails, 'message'>\<close>, the entries of \<open>ErrorMessages\<close>.\<close>

record ErrorInfo =
  info_code :: string
  info_userMessage :: string
  info_recoveryAction :: string

fun ErrorMessages :: "ErrorCode \<Rightarrow> ErrorInfo" where
  "ErrorMessages INVALID_API_KEY =
     \<lparr>info_code = code_name INVALID_API_KEY,
      info_userMessage = ''The API key provided is invalid. Please check your configuration.'',
      info_recoveryAction = ''Verify your API keys in the .env file and restart the application.''\<rparr>"
| "ErrorMessages MISSING_API_KEY =
     \<lparr>info_code = code_name MISSING_API_KEY,
      info_userMessage = ''One or more required API keys are missing.'',
      info_recoveryAction = ''Please configure all required API keys (Anthropic, OpenAI, Google) in your environment.''\<rparr>"
| "ErrorMessages EXPIRED_API_KEY =
     \<lparr>info_code = code_name EXPIRED_API_KEY,
      info_userMessage = ''Your API key has expired.'',
      info_recoveryAction = ''Please renew your API subscription and update the key.''\<rparr>"
| "ErrorMessages INVALID_DOCUMENT_FORMAT =
     \<lparr>info_code = code_name INVALID_DOCUMENT_FORMAT,
      info_userMessage = ''The uploaded document format is not supported.'',
      info_recoveryAction = ''Please upload documents in PDF, DOCX, or TXT format.''\<rparr>"
| "ErrorMessages DOCUMENT_TOO_LARGE =
     \<lparr>info_code = code_name DOCUMENT_TOO_LARGE,
      info_userMessage = ''The uploaded document exceeds the maximum size limit (100MB).'',
      info_recoveryAction = ''Please reduce the file size or split into multiple documents.''\<rparr>"
| "ErrorMessages DOCUMENT_PROCESSING_FAILED =
     \<lparr>info_code = code_name DOCUMENT_PROCESSING_FAILED,
      info_userMessage = ''Failed to process the uploaded documents.'',
      info_recoveryAction = ''Please check the document format and try again.''\<rparr>"
| "ErrorMessages NO_DOCUMENTS_PROVIDED =
     \<lparr>info_code = code_name NO_DOCUMENTS_PROVIDED,
      info_userMessage = ''No documents were provided for analysis.'',
      info_recoveryAction = ''Please upload at least one document to generate a brief.''\<rparr>"
| "ErrorMessages INVALID_BRIEF_TYPE =
     \<lparr>info_code = code_name INVALID_BRIEF_TYPE,
      info_userMessage = ''The selected brief type is not valid.'',
      info_recoveryAction = ''Please select a valid brief type from the dropdown.''\<rparr>"
| "ErrorMessages INVALID_JURISDICTION =
     \<lparr>info_code = code_name INVALID_JURISDICTION,
      info_userMessage = ''The specified jurisdiction is not valid.'',
      info_recoveryAction = ''Please select a valid jurisdiction.''\<rparr>"
| "ErrorMessages GENERATION_FAILED =
     \<lparr>info_code = code_name GENERATION_FAILED,
      info_userMessage = ''Failed to generate the legal brief.'',
      info_recoveryAction = ''Please try again. If the problem persists, contact support.''\<rparr>"
| "ErrorMessages GENERATION_TIMEOUT =
     \<lparr>info_code = code_name GENERATION_TIMEOUT,
      info_userMessage = ''Brief generation timed out due to high complexity.'',
      info_recoveryAction = ''Try reducing the number of documents or simplifying the request.''\<rparr>"
| "ErrorMessages NETWORK_ERROR =
     \<lparr>info_code = code_name NETWORK_ERROR,
      info_userMessage = ''Network connection error.'',
      info_recoveryAction = ''Please check your internet connection and try again.''\<rparr>"
| "ErrorMessages SERVER_ERROR =
     \<lparr>info_code = code_name SERVER_ERROR,
      info_userMessage = ''An internal server error occurred.'',
      info_recoveryAction = ''Please try again later. If the issue persists, contact support.''\<rparr>"
| "ErrorMessages SERVICE_UNAVAILABLE =
     \<lparr>info_code = code_name SERVICE_UNAVAILABLE,
      info_userMessage = ''The service is temporarily unavailable.'',
      info_recoveryAction = ''Please try again in a few minutes.''\<rparr>"
| "ErrorMessages MISSING_REQUIRED_FIELD =
     \<lparr>info_code = code_name MISSING_REQUIRED_FIELD,
      info_userMessage = ''Required information is missing.'',
      info_recoveryAction = ''Please fill in all required fields.''\<rparr>"
| "ErrorMessages INVALID_INPUT =
     \<lparr>info_code = code_name INVALID_INPUT,
      info_userMessage = ''The provided input is invalid.'',
      info_recoveryAction = ''Please check your input and try again.''\<rparr>"
| "ErrorMessages RATE_LIMIT_EXCEEDED =
     \<lparr>info_code = code_name RATE_LIMIT_EXCEEDED,
      info_userMessage = ''Too many requests. Please slow down.'',
      info_recoveryAction = ''Wait a few minutes before trying again.''\<rparr>"
| "ErrorMessages UNKNOWN_ERROR =
     \<lparr>info_code = code_name UNKNOWN_ERROR,
      info_userMessage = ''An unexpected error occurred.'',
      info_recoveryAction = ''Please try again. If the issue persists, contact support.''\<rparr>"

text \<open>
  \<open>table[key]\<close> on an object literal: the key is converted to a string; the result is
  the literal's own entry, or a member inherited from \<open>Object.prototype\<close> (a function, or
  the prototype itself for \<open>__proto__\<close>: truthy, and with no enumerable property of its
  own), or \<open>undefined\<close>.
\<close>

datatype 'a member = Own 'a | Inherited | Absent

definition object_prototype_members :: "string list" where
  "object_prototype_members =
     [''constructor'', ''__defineGetter__'', ''__defineSetter__'', ''hasOwnProperty'',
      ''__lookupGetter__'', ''__lookupSetter__'', ''isPrototypeOf'', ''propertyIsEnumerable'',
      ''toString'', ''valueOf'', ''__proto__'', ''toLocaleString'']"

definition literal_at :: "(string \<times> 'a) list \<Rightarrow> string \<Rightarrow> 'a member" where
  "literal_at entries key =
     (case map_of entries key of
        Some v \<Rightarrow> Own v
      | None \<Rightarrow> if key \<in> set object_prototype_members then Inherited else Absent)"

definition ErrorMessages_at :: "string \<Rightarrow> ErrorInfo member" where
  "ErrorMessages_at key = literal_at (map (\<lambda>c. (code_name c, ErrorMessages c)) all_codes) key"

text \<open>
  \<open>s.includes(pat)\<close> on strings, and \<open>v?.includes(pat)\<close> on a value: \<open>undefined\<close> for
  \<open>undefined\<close> and \<open>null\<close>, the test for a string, and a TypeError for every other JSON
  value, which has no callable \<open>includes\<close>.
\<close>

fun str_includes :: "string \<Rightarrow> string \<Rightarrow> bool" where
  "str_includes [] pat = (pat = [])"
| "str_includes (c # cs) pat = (take (length pat) (c # cs) = pat \<or> str_includes cs pat)"

fun opt_includes :: "jsval \<Rightarrow> string \<Rightarrow> js_error + jsval" where
  "opt_includes JUndefined pat = Inr JUndefined"
| "opt_includes JNull pat = Inr JUndefined"
| "opt_includes (JStr s) pat = Inr (JBool (str_includes s pat))"
| "opt_includes v pat = Inl TypeError"

text \<open>
  \<open>ApiError\<close>. Its constructor hands \<open>details.message\<close> to \<open>Error\<close>, which converts it
  to a string (the empty message when it is \<open>undefined\<close>); a field that \<open>details\<close> lacks
  is \<open>None\<close>.
\<close>

record ApiError =
  name :: string
  message :: string
  code :: "string option"
  userMessage :: "string option"
  recoveryAction :: "string option"
  statusCode :: jsval

definition new_ApiError :: "ErrorInfo member \<Rightarrow> jsval \<Rightarrow> jsval \<Rightarrow> js_error + ApiError" where
  "new_ApiError details msg status =
     (case (if msg = JUndefined then Inr [] else js_toString msg) of
        Inl e \<Rightarrow> Inl e
      | Inr m \<Rightarrow>
          Inr (case details of
                 Own d \<Rightarrow>
                   \<lparr>name = ''ApiError'', message = m, code = Some (info_code d),
                    userMessage = Some (info_userMessage d),
                    recoveryAction = Some (info_recoveryAction d), statusCode = status\<rparr>
               | _ \<Rightarrow>
                   \<lparr>name = ''ApiError'', message = m, code = None, userMessage = None,
                    recoveryAction = None, statusCode = status\<rparr>))"

text \<open>
  \<open>parseApiError(error)\<close>, the branch for an error with a \<open>response\<close>; \<open>response\<close> is
  truthy here, so reading its properties does not throw.
\<close>

definition by_status :: "jsval \<Rightarrow> jsval \<Rightarrow> jsval \<Rightarrow> js_error + ApiError" where
  "by_status error status data =
     (if status = JNum 400 then
        (case opt_includes (optProp data ''message'') ''API key'' of
           Inl e \<Rightarrow> Inl e
         | Inr hit \<Rightarrow>
             if truthy hit
             then new_ApiError (Own (ErrorMessages INVALID_API_KEY)) (optProp data ''message'') status
             else (case getProp data ''message'' of
                     Inl e \<Rightarrow> Inl e
                   | Inr m \<Rightarrow> new_ApiError (Own (ErrorMessages INVALID_INPUT))
                               (js_or m (JStr ''Bad request'')) status))
      else if status = JNum 401 then
        new_ApiError (Own (ErrorMessages INVALID_API_KEY)) (JStr ''Authentication failed'') status
      else if status = JNum 403 then
        new_ApiError (Own (ErrorMessages EXPIRED_API_KEY)) (JStr ''Access forbidden'') status
      else if status = JNum 413 then
        new_ApiError (Own (ErrorMessages DOCUMENT_TOO_LARGE)) (JStr ''Payload too large'') status
      else if status = JNum 429 then
        new_ApiError (Own (ErrorMessages RATE_LIMIT_EXCEEDED)) (JStr ''Rate limit exceeded'') status
      else if status = JNum 500 \<or> status = JNum 502 \<or> status = JNum 503 then
        new_ApiError (Own (ErrorMessages SERVER_ERROR))
          (js_or (optProp data ''message'') (JStr ''Server error'')) status
      else if status = JNum 504 then
        new_ApiError (Own (ErrorMessages GENERATION_TIMEOUT)) (JStr ''Request timeout'') status
      else
        new_ApiError (Own (ErrorMessages UNKNOWN_ERROR))
          (js_or (optProp data ''message'') (optProp error ''message'')) status)"

definition with_response :: "jsval \<Rightarrow> jsval \<Rightarrow> js_error + ApiError" where
  "with_response error response =
     (let status = optProp response ''status'';
          data = optProp response ''data''
      in if truthy (optProp data ''error_code'')
         then (case js_toString (optProp data ''error_code'') of
                 Inl e \<Rightarrow> Inl e
               | Inr key \<Rightarrow>
                   (case ErrorMessages_at key of
                      Absent \<Rightarrow> by_status error status data
                    | errorDetails \<Rightarrow>
                        new_ApiError errorDetails
                          (js_or (optProp data ''message'') (optProp error ''message'')) status))
         else by_status error status data)"

text \<open>
  The branch for an error without a \<open>response\<close>; \<open>onLine\<close> is \<open>navigator.onLine\<close>.
  \<open>error\<close> is not \<open>undefined\<close> or \<open>null\<close> here.
\<close>

definition without_response :: "bool \<Rightarrow> jsval \<Rightarrow> js_error + ApiError" where
  "without_response onLine error =
     (case (if strict_eq (optProp error ''code'') (JStr ''ECONNABORTED'') then Inr (JBool True)
            else opt_includes (optProp error ''message'') ''timeout'') of
        Inl e \<Rightarrow> Inl e
      | Inr timed_out \<Rightarrow>
          if truthy timed_out then
            new_ApiError (Own (ErrorMessages GENERATION_TIMEOUT)) (JStr ''Request timed out'') JUndefined
          else if strict_eq (optProp error ''code'') (JStr ''ERR_NETWORK'') \<or> \<not> onLine then
            new_ApiError (Own (ErrorMessages NETWORK_ERROR)) (JStr ''Network connection lost'') JUndefined
          else
            new_ApiError (Own (ErrorMessages UNKNOWN_ERROR))
              (js_or (optProp error ''message'') (JStr ''Unknown error occurred'')) JUndefined)"

definition parseApiError :: "bool \<Rightarrow> jsval \<Rightarrow> js_error + ApiError" where
  "parseApiError onLine error =
     (case getProp error ''response'' of
        Inl e \<Rightarrow> Inl e
      | Inr response \<Rightarrow>
          if truthy response then with_response error response
          else without_response onLine error)"


section \<open>The web page script (app.js)\<close>

text \<open>
  The page's elements are a store from (element, property) to the text the script wrote
  there, as JavaScript's string conversion gives it; what the browser makes of the text
  is not modelled. Markup rendered from a template with locale-dependent parts is kept as
  the template's name with the values it was rendered from, and a click handler as
  \<open>DDownload\<close> with the file name it will download. \<open>form\<close> holds the values of the
  input elements and \<open>file_input\<close> the files selected in the upload form.
\<close>

datatype domval =
    DText string
  | DMetadataCard jsval
  | DHistoryRows "jsval list"
  | DDownload jsval

type_synonym dom = "string \<times> string \<Rightarrow> domval"

datatype alert =
    Alert string
  | AlertProcessed string string string

record web_state =
  currentBriefTask :: jsval
  currentProcessTask :: jsval
  briefHistory :: "jsval list"
  localStorage :: "string \<rightharpoonup> string"
  page :: dom
  form :: "string \<Rightarrow> string"
  file_input :: "string list"
  alerts :: "alert list"
  requests :: "request list"

text \<open>
  A statement runs on the state and either completes or throws; what it wrote before it
  threw stays written. \<open>run_stmts\<close> runs statements in order up to the first throw.
\<close>

type_synonym stmt = "web_state \<Rightarrow> web_state \<times> js_error option"

fun run_stmts :: "stmt list \<Rightarrow> stmt" where
  "run_stmts [] st = (st, None)"
| "run_stmts (s # ss) st =
     (case s st of (st', Some e) \<Rightarrow> (st', Some e) | (st', None) \<Rightarrow> run_stmts ss st')"

definition write_text :: "string \<times> string \<Rightarrow> string \<Rightarrow> stmt" where
  "write_text el txt st = (st\<lparr>page := (page st)(el := DText txt)\<rparr>, None)"

text \<open>Writing a payload value to a text property converts it to a string first.\<close>

definition write_val :: "string \<times> string \<Rightarrow> jsval \<Rightarrow> stmt" where
  "write_val el v st =
     (case js_toString v of
        Inl e \<Rightarrow> (st, Some e)
      | Inr txt \<Rightarrow> (st\<lparr>page := (page st)(el := DText txt)\<rparr>, None))"

text \<open>\<open>el.textContent = v\<close>: \<open>undefined\<close> and \<open>null\<close> give the empty text.\<close>

definition write_textContent :: "string \<Rightarrow> jsval \<Rightarrow> stmt" where
  "write_textContent el v =
     (if nullish v then write_text (el, ''textContent'') [] else write_val (el, ''textContent'') v)"

definition js_alert :: "alert \<Rightarrow> stmt" where
  "js_alert a st = (st\<lparr>alerts := alerts st @ [a]\<rparr>, None)"

text \<open>\<open>alert(prefix + v)\<close>\<close>

definition alert_concat :: "string \<Rightarrow> jsval \<Rightarrow> stmt" where
  "alert_concat prefix v st =
     (case js_toString v of
        Inl e \<Rightarrow> (st, Some e)
      | Inr txt \<Rightarrow> (st\<lparr>alerts := alerts st @ [Alert (prefix @ txt)]\<rparr>, None))"

definition fetch :: "request \<Rightarrow> stmt" where
  "fetch r st = (st\<lparr>requests := requests st @ [r]\<rparr>, None)"

definition updateBriefProgress :: "jsval \<Rightarrow> jsval \<Rightarrow> stmt" where
  "updateBriefProgress stage progress =
     run_stmts
       [(\<lambda>st. case js_toString progress of
                 Inl e \<Rightarrow> (st, Some e)
               | Inr txt \<Rightarrow> write_text (''#generation-progress .progress-bar'', ''style.width'') (txt @ ''%'') st),
        write_textContent ''progress-stage'' stage]"

definition updateUploadProgress :: "jsval \<Rightarrow> jsval \<Rightarrow> stmt" where
  "updateUploadProgress percent status =
     run_stmts
       [(\<lambda>st. case js_toString percent of
                 Inl e \<Rightarrow> (st, Some e)
               | Inr txt \<Rightarrow> write_text (''#upload-progress .progress-bar'', ''style.width'') (txt @ ''%'') st),
        write_textContent ''upload-status'' status]"

definition updateHistoryTable :: "stmt" where
  \<open>updateHistoryTable st =
     (if length (briefHistory st) = 0
      then (st\<lparr>page := (page st)((''history-table'', ''innerHTML'') :=
             DText ''<tr><td colspan="5" class="text-center text-muted">No briefs generated yet</td></tr>'')\<rparr>, None)
      else (st\<lparr>page := (page st)((''history-table'', ''innerHTML'') :=
             DHistoryRows (briefHistory st))\<rparr>, None))\<close>

text \<open>
  \<open>addToHistory(briefData)\<close>. \<open>stringify\<close> is \<open>JSON.stringify\<close> and \<open>now\<close> is
  \<open>new Date().toISOString()\<close> at the call.
\<close>

definition addToHistory :: "(jsval list \<Rightarrow> string) \<Rightarrow> string \<Rightarrow> jsval \<Rightarrow> stmt" where
  "addToHistory stringify now briefData st =
     (let unshifted = JObj (set_prop ''date'' (JStr now) (own_enumerable briefData)) # briefHistory st;
          st1 = st\<lparr>briefHistory := take 50 unshifted\<rparr>;
          st2 = st1\<lparr>localStorage := (localStorage st1)(''lexicon_history'' \<mapsto> stringify (briefHistory st1))\<rparr>
      in updateHistoryTable st2)"

text \<open>
  The template literal of the metadata card reads \<open>metadata.expert\<close>, \<open>.strategy\<close>,
  \<open>.motion_type\<close>, \<open>.length.toLocaleString()\<close> and \<open>new Date(metadata.timestamp)\<close>:
  it throws when \<open>metadata\<close> or its \<open>length\<close> is \<open>undefined\<close> or \<open>null\<close>, when \<open>length\<close>
  hides the inherited \<open>toLocaleString\<close> (which, on an object, converts it to a string),
  and when a value cannot be converted.
\<close>

definition convertible :: "jsval \<Rightarrow> bool" where
  "convertible v = (case js_toString v of Inl e \<Rightarrow> False | Inr txt \<Rightarrow> True)"

definition metadata_card :: "jsval \<Rightarrow> stmt" where
  "metadata_card metadata st =
     (if \<not> nullish metadata
         \<and> convertible (optProp metadata ''expert'')
         \<and> convertible (optProp metadata ''strategy'')
         \<and> convertible (optProp metadata ''motion_type'')
         \<and> \<not> nullish (optProp metadata ''length'')
         \<and> optProp (optProp metadata ''length'') ''toLocaleString'' = JUndefined
         \<and> convertible (optProp metadata ''length'')
         \<and> convertible (optProp metadata ''timestamp'')
      then (st\<lparr>page := (page st)((''brief-metadata'', ''innerHTML'') := DMetadataCard metadata)\<rparr>, None)
      else (st, Some TypeError))"

definition set_download :: "string \<Rightarrow> jsval \<Rightarrow> stmt" where
  "set_download el filename st =
     (st\<lparr>page := (page st)((el, ''onclick'') := DDownload filename)\<rparr>, None)"

text \<open>
  \<open>handleBriefComplete(data)\<close>; \<open>data\<close> is not \<open>undefined\<close> or \<open>null\<close> here, the
  listener has read its \<open>task_id\<close>.
\<close>

definition handleBriefComplete :: "(jsval list \<Rightarrow> string) \<Rightarrow> string \<Rightarrow> jsval \<Rightarrow> stmt" where
  "handleBriefComplete stringify now data =
     run_stmts
       [write_text (''generation-progress'', ''style.display'') ''none'',
        (if truthy (optProp data ''success'')
         then run_stmts
           [write_text (''generation-result'', ''style.display'') ''block'',
            write_val (''download-brief'', ''dataset.filename'') (optProp data ''filename''),
            write_val (''modal-download'', ''dataset.filename'') (optProp data ''filename''),
            write_textContent ''brief-preview'' (optProp data ''brief_excerpt''),
            metadata_card (optProp data ''full_result''),
            addToHistory stringify now (optProp data ''full_result''),
            set_download ''download-brief'' (optProp data ''filename''),
            set_download ''modal-download'' (optProp data ''filename'')]
         else alert_concat ''Brief generation failed: '' (optProp data ''error''))]"

text \<open>
  \<open>handleProcessingComplete(data)\<close>. The alert's numbers are read from \<open>data.summary\<close>,
  which throws when the summary is missing. \<open>loadExperts()\<close> and \<open>loadSystemStatus()\<close>
  start one request each.
\<close>

definition processed_alert :: "jsval \<Rightarrow> stmt" where
  "processed_alert summary st =
     (if nullish summary then (st, Some TypeError)
      else case (js_toString (optProp summary ''successfully_processed''),
                 js_toString (optProp summary ''failed''),
                 js_toString (optProp summary ''total_vectors_created'')) of
             (Inr a, Inr b, Inr c) \<Rightarrow> js_alert (AlertProcessed a b c) st
           | _ \<Rightarrow> (st, Some TypeError))"

definition reset_upload_form :: "stmt" where
  "reset_upload_form st = (st\<lparr>file_input := []\<rparr>, None)"

definition handleProcessingComplete :: "jsval \<Rightarrow> stmt" where
  \<open>handleProcessingComplete data =
     run_stmts
       [write_text (''upload-progress'', ''style.display'') ''none'',
        (if truthy (optProp data ''success'')
         then run_stmts
           [processed_alert (optProp data ''summary''),
            reset_upload_form,
            write_text (''file-list'', ''innerHTML'') [],
            write_text (''#upload-form button[type="submit"]'', ''disabled'') ''true'',
            fetch (GET ''/api/experts''),
            fetch (GET ''/api/status'')]
         else alert_concat ''Processing failed: '' (optProp data ''error''))]\<close>

text \<open>
  The listeners of \<open>setupSocketListeners\<close>. Each reads \<open>data.task_id\<close> (which throws on
  a payload that is \<open>undefined\<close> or \<open>null\<close>) and compares it with the tracked task.
  \<open>updateProcessingProgress\<close> is not defined in the script; it is a parameter.
\<close>

datatype socket_event =
    Connected jsval
  | BriefProgress jsval
  | BriefComplete jsval
  | ProcessingProgress jsval
  | ProcessingComplete jsval

definition when_task :: "jsval \<Rightarrow> (web_state \<Rightarrow> jsval) \<Rightarrow> stmt \<Rightarrow> stmt" where
  "when_task data tracked handler st =
     (case getProp data ''task_id'' of
        Inl e \<Rightarrow> (st, Some e)
      | Inr t \<Rightarrow> if strict_eq t (tracked st) then handler st else (st, None))"

fun socket_listener ::
  "(jsval \<Rightarrow> jsval \<Rightarrow> stmt) \<Rightarrow> (jsval list \<Rightarrow> string) \<Rightarrow> string \<Rightarrow> socket_event \<Rightarrow> stmt" where
  "socket_listener updateProcessingProgress stringify now (Connected data) =
     (\<lambda>st. case getProp data ''message'' of Inl e \<Rightarrow> (st, Some e) | Inr m \<Rightarrow> (st, None))"
| "socket_listener updateProcessingProgress stringify now (BriefProgress data) =
     when_task data currentBriefTask
       (updateBriefProgress (optProp data ''stage'') (optProp data ''progress''))"
| "socket_listener updateProcessingProgress stringify now (BriefComplete data) =
     when_task data currentBriefTask (handleBriefComplete stringify now data)"
| "socket_listener updateProcessingProgress stringify now (ProcessingProgress data) =
     when_task data currentProcessTask
       (updateProcessingProgress (optProp data ''stage'') (optProp data ''progress''))"
| "socket_listener updateProcessingProgress stringify now (ProcessingComplete data) =
     when_task data currentProcessTask (handleProcessingComplete data)"

text \<open>
  \<open>handleGenerate(e)\<close>, up to the \<open>fetch\<close>: the three fields are read from the form; when one
  is empty the handler alerts and returns. Otherwise it hides the result, shows the
  progress panel and posts the request. The document set is not read.
\<close>

definition handleGenerate :: "stmt" where
  "handleGenerate st =
     (let expertName = form st ''expert-name'';
          strategy = form st ''strategy'';
          motionType = form st ''motion-type''
      in if expertName = [] \<or> strategy = [] \<or> motionType = []
         then js_alert (Alert ''Please fill in all fields'') st
         else run_stmts
           [write_text (''generation-result'', ''style.display'') ''none'',
            write_text (''generation-progress'', ''style.display'') ''block'',
            updateBriefProgress (JStr ''Initializing'') (JNum 0),
            fetch (POST ''/api/generate-brief''
              (JObj [(''expert_name'', JStr expertName), (''strategy'', JStr strategy),
                     (''motion_type'', JStr motionType)]))] st)"

text \<open>
  The rest of \<open>handleGenerate\<close>, when the request has settled: \<open>Fetched data\<close> is the parsed
  body, \<open>FetchFailed error\<close> what \<open>fetch\<close> or \<open>response.json()\<close> threw.
\<close>

datatype fetch_outcome =
    Fetched jsval
  | FetchFailed jsval

definition generate_failed :: "jsval \<Rightarrow> stmt" where
  "generate_failed error st =
     (case getProp error ''message'' of
        Inl e \<Rightarrow> (st, Some e)
      | Inr m \<Rightarrow> run_stmts
          [alert_concat ''Error: '' m,
           write_text (''generation-progress'', ''style.display'') ''none''] st)"

definition try_catch :: "stmt \<Rightarrow> (jsval \<Rightarrow> stmt) \<Rightarrow> stmt" where
  "try_catch body handler st =
     (case body st of
        (st', None) \<Rightarrow> (st', None)
      | (st', Some e) \<Rightarrow> handler (thrown e) st')"

fun handleGenerate_settled :: "fetch_outcome \<Rightarrow> stmt" where
  "handleGenerate_settled (FetchFailed error) = generate_failed error"
| "handleGenerate_settled (Fetched data) =
     try_catch
       (\<lambda>st. case getProp data ''success'' of
          Inl e \<Rightarrow> (st, Some e)
        | Inr ok \<Rightarrow>
            if truthy ok then (st\<lparr>currentBriefTask := optProp data ''task_id''\<rparr>, None)
            else run_stmts
              [alert_concat ''Failed to start brief generation: '' (optProp data ''error''),
               write_text (''generation-progress'', ''style.display'') ''none''] st)
       generate_failed"

text \<open>\<open>handleUpload(e)\<close>, up to the \<open>fetch\<close>.\<close>

definition handleUpload :: "stmt" where
  "handleUpload st =
     (if length (file_input st) = 0 then (st, None)
      else run_stmts
        [write_text (''upload-progress'', ''style.display'') ''block'',
         updateUploadProgress (JNum 0) (JStr ''Uploading files...''),
         fetch (POST_files ''/api/upload-documents'' (file_input st))] st)"

text \<open>The rest of \<open>handleUpload\<close>, when the request has settled.\<close>

definition upload_failed :: "jsval \<Rightarrow> stmt" where
  "upload_failed error st =
     (case getProp error ''message'' of
        Inl e \<Rightarrow> (st, Some e)
      | Inr m \<Rightarrow> run_stmts
          [alert_concat ''Error: '' m,
           write_text (''upload-progress'', ''style.display'') ''none''] st)"

fun handleUpload_settled :: "fetch_outcome \<Rightarrow> stmt" where
  "handleUpload_settled (FetchFailed error) = upload_failed error"
| "handleUpload_settled (Fetched data) =
     try_catch
       (\<lambda>st. case getProp data ''success'' of
          Inl e \<Rightarrow> (st, Some e)
        | Inr ok \<Rightarrow>
            if truthy ok
            then run_stmts
              [(\<lambda>st. (st\<lparr>currentProcessTask := optProp data ''task_id''\<rparr>, None)),
               updateUploadProgress (JNum 50) (JStr ''Processing documents...'')] st
            else run_stmts
              [alert_concat ''Upload failed: '' (optProp data ''error''),
               write_text (''upload-progress'', ''style.display'') ''none''] st)
       upload_failed"

section \<open>Types of the React front end (types)\<close>

datatype BriefType =
    daubert_motion
  | daubert_response
  | frye_motion
  | frye_response
  | motion_in_limine

fun briefType_string :: "BriefType \<Rightarrow> string" where
  "briefType_string daubert_motion = ''daubert_motion''"
| "briefType_string daubert_response = ''daubert_response''"
| "briefType_string frye_motion = ''frye_motion''"
| "briefType_string frye_response = ''frye_response''"
| "briefType_string motion_in_limine = ''motion_in_limine''"

datatype file_status = file_uploading | file_completed | file_error

text \<open>\<open>UploadedFile\<close>; its \<open>file\<close> is the browser's \<open>File\<close>, of which the name, the MIME type and the size matter.\<close>

record File =
  file_name :: string
  file_type :: string
  file_size :: nat

record UploadedFile =
  uf_id :: string
  uf_file :: File
  uf_name :: string
  uf_size :: nat
  uf_type :: string
  uploadProgress :: nat
  uf_status :: file_status

text \<open>
  The stages of \<open>BriefGenerationStatus\<close>, in the order the type lists them; the stage
  \<open>'error'\<close> is \<open>error_stage\<close> here.
\<close>

datatype stage =
    uploading
  | anonymization
  | strategic_analysis
  | legal_research
  | scientific_research
  | brief_writing
  | final_review
  | completed
  | error_stage

fun stage_index :: "stage \<Rightarrow> nat" where
  "stage_index uploading = 0"
| "stage_index anonymization = 1"
| "stage_index strategic_analysis = 2"
| "stage_index legal_research = 3"
| "stage_index scientific_research = 4"
| "stage_index brief_writing = 5"
| "stage_index final_review = 6"
| "stage_index completed = 7"
| "stage_index error_stage = 8"

text \<open>
  \<open>BriefGenerationStatus\<close>. The values come from untyped payloads, so \<open>progress\<close>,
  \<open>currentAgent\<close> and the text are JSON values; \<open>stage\<close> is \<open>None\<close> when the value put
  there is not a stage at all (see \<open>progress_status\<close>).
\<close>

record BriefGenerationStatus =
  stage :: "stage option"
  progress :: jsval
  currentAgent :: jsval
  status_message :: jsval

text \<open>
  \<open>GenerateBriefRequest\<close>. \<open>onProgress\<close> acts on the state of whoever observes the run.
\<close>

record 'obs GenerateBriefRequest =
  briefType :: BriefType
  files :: "UploadedFile list"
  expertName :: string
  jurisdiction :: string
  onProgress :: "BriefGenerationStatus \<Rightarrow> 'obs \<Rightarrow> 'obs"

text \<open>
  \<open>GenerateBriefResponse\<close>. Neither function of the service sets
  \<open>strategicRecommendations\<close>, \<open>agentsUsed\<close> or \<open>anonymizedDocuments\<close>; the metadata has
  the three fields they do set.
\<close>

record BriefMetadata =
  wordCount :: jsval
  citations :: int
  processingTime :: int

record GenerateBriefResponse =
  brief :: jsval
  strategicRecommendations :: jsval
  metadata :: BriefMetadata

section \<open>The API service (services/api.ts)\<close>

text \<open>
  \<open>briefTypeMapping\<close> and the body of the request posted to \<open>/api/generate-brief\<close>.
  The brief type is one of the five of its type, each an own key of the mapping.
\<close>

definition briefTypeMapping :: "(string \<times> string) list" where
  "briefTypeMapping =
     [(''daubert_motion'', ''Daubert Motion''),
      (''daubert_response'', ''Response to Daubert Challenge''),
      (''frye_motion'', ''Frye Motion''),
      (''frye_response'', ''Response to Frye Challenge''),
      (''motion_in_limine'', ''Motion in Limine'')]"

definition generate_brief_body :: "'obs GenerateBriefRequest \<Rightarrow> jsval" where
  "generate_brief_body req =
     JObj [(''expert_name'', JStr (expertName req)),
           (''strategy'', JStr (if str_includes (briefType_string (briefType req)) ''response''
                                then ''support'' else ''challenge'')),
           (''motion_type'', JStr (case map_of briefTypeMapping (briefType_string (briefType req)) of
                                     Some m \<Rightarrow> m | None \<Rightarrow> briefType_string (briefType req))),
           (''jurisdiction'', JStr (jurisdiction req))]"

text \<open>
  The promise \<open>generateBrief\<close> returns: it is settled once, by the first \<open>resolve\<close> or
  \<open>reject\<close>; a later one has no effect.
\<close>

datatype ('a, 'e) promise = Pending | Fulfilled 'a | Rejected 'e

fun settle :: "('a, 'e) promise \<Rightarrow> ('a, 'e) promise \<Rightarrow> ('a, 'e) promise" where
  "settle Pending outcome = outcome"
| "settle settled outcome = settled"

text \<open>
  The state of one call of \<open>generateBrief\<close>: its promise, whether the socket is still
  open (\<open>socket.disconnect()\<close> closes it, and a closed socket delivers no event), whether
  the POST is still outstanding, the observer's state, and the errors thrown out of a
  handler (after which the handler's remaining statements did not run).
\<close>

record 'obs call_state =
  result :: "(GenerateBriefResponse, ApiError) promise"
  socket_open :: bool
  post_outstanding :: bool
  observer :: 'obs
  unhandled :: "js_error list"

definition generateBrief_start :: "'obs \<Rightarrow> 'obs call_state" where
  "generateBrief_start obs =
     \<lparr>result = Pending, socket_open = True, post_outstanding = True, observer = obs,
      unhandled = []\<rparr>"

text \<open>What happens to a call: a socket event with its payload, or the POST settling.\<close>

datatype api_event =
    progress_update jsval
  | brief_complete jsval
  | post_fulfilled jsval
  | post_rejected jsval

definition progressMap :: "(string \<times> stage) list" where
  "progressMap =
     [(''Uploading documents'', uploading),
      (''Strategic analysis'', strategic_analysis),
      (''Legal research'', legal_research),
      (''Scientific research'', scientific_research),
      (''Writing brief'', brief_writing),
      (''Finalizing'', final_review)]"

text \<open>
  The status the \<open>progress_update\<close> listener hands to \<open>onProgress\<close>:
  \<open>progressMap[data.stage] || 'uploading'\<close> with the server's percentage, agent and stage
  text. A \<open>data.stage\<close> that names an inherited member of the map puts that member, which
  is not a stage, in \<open>stage\<close>.
\<close>

definition progress_status :: "jsval \<Rightarrow> js_error + BriefGenerationStatus" where
  "progress_status data =
     (case getProp data ''stage'' of
        Inl e \<Rightarrow> Inl e
      | Inr data_stage \<Rightarrow>
          (case js_toString data_stage of
             Inl e \<Rightarrow> Inl e
           | Inr key \<Rightarrow>
               Inr \<lparr>stage = (case literal_at progressMap key of
                                Own s \<Rightarrow> Some s | Inherited \<Rightarrow> None | Absent \<Rightarrow> Some uploading),
                    progress = optProp data ''progress'',
                    currentAgent = js_or (optProp data ''agent'') (JStr ''System''),
                    status_message = data_stage\<rparr>))"

definition complete_response :: "int \<Rightarrow> jsval \<Rightarrow> GenerateBriefResponse" where
  "complete_response now data =
     \<lparr>brief = js_or (optProp data ''brief_excerpt'') (JStr ''Brief generated successfully''),
      strategicRecommendations = JUndefined,
      metadata = \<lparr>wordCount = js_or (optProp (optProp data ''full_result'') ''length'') (JNum 1000),
                  citations = 10,
                  processingTime = now\<rparr>\<rparr>"

definition throw :: "js_error \<Rightarrow> 'obs call_state \<Rightarrow> 'obs call_state" where
  "throw e st = st\<lparr>unhandled := unhandled st @ [e]\<rparr>"

text \<open>The \<open>.catch\<close> of the POST: disconnect, translate the error, reject.\<close>

definition post_catch :: "bool \<Rightarrow> jsval \<Rightarrow> 'obs call_state \<Rightarrow> 'obs call_state" where
  "post_catch onLine error st =
     (let st1 = st\<lparr>socket_open := False\<rparr>
      in case parseApiError onLine error of
           Inl e \<Rightarrow> throw e st1
         | Inr parsedError \<Rightarrow> st1\<lparr>result := settle (result st1) (Rejected parsedError)\<rparr>)"

text \<open>\<open>new Error(v)\<close> as the handlers see it: an object whose \<open>message\<close> is \<open>v\<close> as a string.\<close>

definition new_Error :: "jsval \<Rightarrow> js_error + jsval" where
  "new_Error v =
     (case js_toString v of Inl e \<Rightarrow> Inl e | Inr m \<Rightarrow> Inr (JObj [(''message'', JStr m)]))"

text \<open>
  One event of a call. \<open>now\<close> is \<open>Date.now()\<close> when the event is handled and \<open>onLine\<close> is
  \<open>navigator.onLine\<close>.
\<close>

fun generateBrief_step ::
  "'obs GenerateBriefRequest \<Rightarrow> int \<Rightarrow> bool \<Rightarrow> 'obs call_state \<Rightarrow> api_event \<Rightarrow> 'obs call_state" where
  "generateBrief_step req now onLine st (progress_update data) =
     (if socket_open st
      then (case progress_status data of
              Inl e \<Rightarrow> throw e st
            | Inr s \<Rightarrow> st\<lparr>observer := onProgress req s (observer st)\<rparr>)
      else st)"
| "generateBrief_step req now onLine st (brief_complete data) =
     (if socket_open st
      then (let st1 = st\<lparr>socket_open := False\<rparr>
            in case getProp data ''success'' of
                 Inl e \<Rightarrow> throw e st1
               | Inr success \<Rightarrow>
                   if truthy success
                   then st1\<lparr>result := settle (result st1) (Fulfilled (complete_response now data))\<rparr>
                   else (case parseApiError onLine
                                (JObj [(''response'',
                                   JObj [(''data'', JObj [(''message'', optProp data ''error'')]),
                                         (''status'', JNum 500)])]) of
                           Inl e \<Rightarrow> throw e st1
                         | Inr error \<Rightarrow> st1\<lparr>result := settle (result st1) (Rejected error)\<rparr>))
      else st)"
| "generateBrief_step req now onLine st (post_fulfilled response_data) =
     (if post_outstanding st
      then (let st1 = st\<lparr>post_outstanding := False\<rparr>
            in case getProp response_data ''success'' of
                 Inl e \<Rightarrow> post_catch onLine (thrown e) st1
               | Inr success \<Rightarrow>
                   if truthy success
                   then st1\<lparr>observer :=
                          onProgress req
                            \<lparr>stage = Some uploading, progress = JNum 10,
                             currentAgent = JStr ''System'',
                             status_message = JStr ''Processing request...''\<rparr>
                            (observer st1)\<rparr>
                   else (case new_Error (js_or (optProp response_data ''error'')
                                           (JStr ''Failed to start generation'')) of
                           Inl e \<Rightarrow> post_catch onLine (thrown e) st1
                         | Inr error \<Rightarrow> post_catch onLine error st1))
      else st)"
| "generateBrief_step req now onLine st (post_rejected error) =
     (if post_outstanding st
      then post_catch onLine error (st\<lparr>post_outstanding := False\<rparr>)
      else st)"

text \<open>
  A run of \<open>generateBrief\<close>: the request it posts, and the call's state after the events
  that reached it, in their order; each event comes with the clock's reading when it is
  handled.
\<close>

definition generateBrief ::
  "'obs GenerateBriefRequest \<Rightarrow> bool \<Rightarrow> 'obs \<Rightarrow> (int \<times> api_event) list \<Rightarrow> 'obs call_state" where
  "generateBrief req onLine obs events =
     foldl (\<lambda>st (now, ev). generateBrief_step req now onLine st ev) (generateBrief_start obs) events"

text \<open>
  \<open>simulateGenerateBrief\<close>: the seven statuses go to \<open>onProgress\<close> in order (two seconds
  apart), then the sample brief is returned. \<open>toUpperCase\<close> is the runtime's
  \<open>String.prototype.toUpperCase\<close>.
\<close>

definition stages :: "BriefGenerationStatus list" where
  "stages =
     [\<lparr>stage = Some uploading, progress = JNum 20, currentAgent = JStr ''System'',
       status_message = JStr ''Processing uploaded files...''\<rparr>,
      \<lparr>stage = Some strategic_analysis, progress = JNum 35, currentAgent = JStr ''Claude Opus 4'',
       status_message = JStr ''Analyzing case strategy and identifying key arguments...''\<rparr>,
      \<lparr>stage = Some legal_research, progress = JNum 50, currentAgent = JStr ''O3 Pro Deep Research'',
       status_message = JStr ''Searching for supporting precedents in legal databases...''\<rparr>,
      \<lparr>stage = Some scientific_research, progress = JNum 65, currentAgent = JStr ''GPT-4.1'',
       status_message = JStr ''Reviewing medical literature and expert methodologies...''\<rparr>,
      \<lparr>stage = Some brief_writing, progress = JNum 80, currentAgent = JStr ''GPT-4.5'',
       status_message = JStr ''Drafting comprehensive legal arguments...''\<rparr>,
      \<lparr>stage = Some final_review, progress = JNum 95, currentAgent = JStr ''Gemini 2.5 Pro'',
       status_message = JStr ''Fact-checking and polishing final brief...''\<rparr>,
      \<lparr>stage = Some completed, progress = JNum 100, currentAgent = JStr ''System'',
       status_message = JStr ''Brief generation complete!''\<rparr>]"

fun join_lines :: "string list \<Rightarrow> string" where
  "join_lines [] = []"
| "join_lines [l] = l"
| "join_lines (l # ls) = l @ ''\<newline>'' @ join_lines ls"

definition replace_underscores :: "string \<Rightarrow> string" where
  "replace_underscores s = map (\<lambda>c. if c = CHR ''_'' then CHR '' '' else c) s"

definition sampleBrief :: "(string \<Rightarrow> string) \<Rightarrow> string \<Rightarrow> string \<Rightarrow> string" where
  "sampleBrief toUpperCase jurisdiction_str briefType_str =
     join_lines
       [''UNITED STATES DISTRICT COURT'',
        toUpperCase jurisdiction_str @ '' DISTRICT'',
        '''',
        ''Case No. XX-XXXX'',
        '''',
        ''PLAINTIFF,'',
        ''v.'',
        ''DEFENDANT.'',
        '''',
        toUpperCase (replace_underscores briefType_str),
        '''',
        ''NOW COMES the Plaintiff, by and through undersigned counsel, and respectfully submits this '' @ replace_underscores briefType_str @ '' and states as follows:'',
        '''',
        ''I. INTRODUCTION'',
        '''',
        ''This motion seeks to '' @ (if str_includes briefType_str ''daubert'' then ''exclude the testimony of opposing expert witness pursuant to Federal Rule of Evidence 702 and Daubert v. Merrell Dow Pharmaceuticals, Inc.'' else ''exclude certain evidence from trial'') @ ''.'',
        '''',
        ''II. STATEMENT OF FACTS'',
        '''',
        ''[Generated facts based on uploaded documents...]'',
        '''',
        ''III. LEGAL STANDARD'',
        '''',
        (if str_includes briefType_str ''daubert'' then ''Under Daubert, trial judges serve as gatekeepers to ensure expert testimony is both relevant and reliable...'' else ''The court has broad discretion to exclude evidence under Federal Rules of Evidence...''),
        '''',
        ''IV. ARGUMENT'',
        '''',
        ''A. The Expert's Methodology Lacks Scientific Validity'',
        ''   1. No peer review or general acceptance'',
        ''   2. Unknown error rate'',
        ''   3. Failure to follow standard protocols'',
        '''',
        ''B. The Testimony Will Not Assist the Trier of Fact'',
        ''   1. Confusing and misleading conclusions'',
        ''   2. Prejudicial impact outweighs probative value'',
        '''',
        ''V. CONCLUSION'',
        '''',
        ''For the foregoing reasons, Plaintiff respectfully requests that this Court grant this motion and exclude the challenged testimony.'',
        '''',
        ''Respectfully submitted,'',
        '''',
        ''[Law Firm Name]'',
        ''[Attorney Name]'',
        ''[Bar Number]'',
        ''[Address]'',
        ''[Phone]'',
        ''[Email]'',
        '''',
        ''Generated by LEXICON v0.1.5'',
        ''AI Agents: Claude Opus 4, O3 Pro Deep Research, GPT-4.1, GPT-4.5, Gemini 2.5 Pro'']"

text \<open>
  \<open>s.split(/\s+/).length\<close>: one more than the number of maximal runs of white space in
  \<open>s\<close> (the white space of ASCII; the model's text is ASCII).
\<close>

definition is_space :: "char \<Rightarrow> bool" where
  "is_space c = (c \<in> set [CHR '' '', CHR 0x09, CHR 0x0A, CHR 0x0B, CHR 0x0C, CHR 0x0D])"

fun space_runs :: "bool \<Rightarrow> string \<Rightarrow> nat" where
  "space_runs in_run [] = 0"
| "space_runs in_run (c # cs) =
     (if is_space c then (if in_run then 0 else 1) + space_runs True cs
      else space_runs False cs)"

definition split_spaces_length :: "string \<Rightarrow> nat" where
  "split_spaces_length s = 1 + space_runs False s"

definition simulateGenerateBrief ::
  "(string \<Rightarrow> string) \<Rightarrow> 'obs GenerateBriefRequest \<Rightarrow> 'obs \<Rightarrow> 'obs \<times> GenerateBriefResponse" where
  "simulateGenerateBrief toUpperCase req obs =
     (let text = sampleBrief toUpperCase (jurisdiction req) (briefType_string (briefType req))
      in (foldl (\<lambda>seen s. onProgress req s seen) obs stages,
          \<lparr>brief = JStr text,
           strategicRecommendations = JUndefined,
           metadata = \<lparr>wordCount = JNum (int (split_spaces_length text)),
                       citations = 15,
                       processingTime = 14000\<rparr>\<rparr>))"

section \<open>The React application (App.tsx)\<close>

text \<open>The component's state; \<open>null\<close> is \<open>None\<close>, or \<open>JNull\<close> where the value is a JSON value.\<close>

record app_state =
  uploadedFiles :: "UploadedFile list"
  selectedBriefType :: "BriefType option"
  selectedExpert :: string
  app_jurisdiction :: string
  generationStatus :: "BriefGenerationStatus option"
  generatedBrief :: jsval
  app_strategicRecommendations :: jsval
  briefMetadata :: "BriefMetadata option"

text \<open>
  \<open>handleGenerateBrief\<close>. The guard returns before anything is set or sent. Past the
  guard the status is set, \<open>generateBrief\<close> is called with
  \<open>onProgress = setGenerationStatus\<close>, and the handler awaits the promise: when it is
  fulfilled the brief, the recommendations and the metadata are stored and the status
  becomes \<open>completed\<close>; when it is rejected the status becomes \<open>error\<close>.
\<close>

definition setGenerationStatus :: "BriefGenerationStatus \<Rightarrow> app_state \<Rightarrow> app_state" where
  "setGenerationStatus s st = st\<lparr>generationStatus := Some s\<rparr>"

definition app_request :: "app_state \<Rightarrow> BriefType \<Rightarrow> app_state GenerateBriefRequest" where
  "app_request st bt =
     \<lparr>briefType = bt, files = uploadedFiles st, expertName = selectedExpert st,
      jurisdiction = app_jurisdiction st, onProgress = setGenerationStatus\<rparr>"

definition after_await ::
  "(GenerateBriefResponse, ApiError) promise \<Rightarrow> app_state \<Rightarrow> app_state" where
  "after_await p st =
     (case p of
        Pending \<Rightarrow> st
      | Fulfilled r \<Rightarrow>
          st\<lparr>generatedBrief := brief r,
             app_strategicRecommendations := strategicRecommendations r,
             briefMetadata := Some (metadata r),
             generationStatus := Some \<lparr>stage = Some completed, progress = JNum 100,
               currentAgent = JStr ''System'', status_message = JStr ''Brief generation complete!''\<rparr>\<rparr>
      | Rejected error \<Rightarrow>
          st\<lparr>generationStatus := Some \<lparr>stage = Some error_stage, progress = JNum 0,
               currentAgent = JStr ''System'',
               status_message = JStr ''Error generating brief. Please try again.''\<rparr>\<rparr>)"

text \<open>One event of the awaited call; the continuation of the \<open>await\<close> runs when the event settles the promise.\<close>

definition app_step ::
  "app_state GenerateBriefRequest \<Rightarrow> bool \<Rightarrow> app_state call_state \<Rightarrow> int \<times> api_event
     \<Rightarrow> app_state call_state" where
  "app_step req onLine st ev =
     (let st' = generateBrief_step req (fst ev) onLine st (snd ev)
      in if result st = Pending
         then st'\<lparr>observer := after_await (result st') (observer st')\<rparr>
         else st')"

text \<open>
  The outcome of a click on Generate Brief: the requests sent, the call (if one was made)
  and the component's state after the events.
\<close>

record app_run =
  posted :: "request list"
  call :: "(GenerateBriefResponse, ApiError) promise option"
  app :: app_state

definition handleGenerateBrief :: "bool \<Rightarrow> (int \<times> api_event) list \<Rightarrow> app_state \<Rightarrow> app_run" where
  "handleGenerateBrief onLine events st =
     (case selectedBriefType st of
        None \<Rightarrow> \<lparr>posted = [], call = None, app = st\<rparr>
      | Some bt \<Rightarrow>
          if length (uploadedFiles st) = 0 \<or> selectedExpert st = []
          then \<lparr>posted = [], call = None, app = st\<rparr>
          else (let st1 = st\<lparr>generationStatus := Some \<lparr>stage = Some uploading, progress = JNum 0,
                                currentAgent = JStr ''System'',
                                status_message = JStr ''Uploading case files...''\<rparr>\<rparr>;
                    req = app_request st1 bt;
                    final = foldl (app_step req onLine) (generateBrief_start st1) events
                in \<lparr>posted = [POST ''/api/generate-brief'' (generate_brief_body req)],
                    call = Some (result final),
                    app = observer final\<rparr>))"

text \<open>\<open>handleReset\<close>\<close>

definition handleReset :: "app_state \<Rightarrow> app_state" where
  "handleReset st =
     st\<lparr>uploadedFiles := [], selectedBriefType := None, generationStatus := None,
        generatedBrief := JNull, app_strategicRecommendations := JNull, briefMetadata := None\<rparr>"


section \<open>The upload component (components/FileUpload.tsx)\<close>








text \<open>
  \<open>onDrop(acceptedFiles)\<close> wraps each accepted file; \<open>random_id i\<close> is the identifier
  drawn for the \<open>i\<close>-th of them.
\<close>

definition onDrop :: "(nat \<Rightarrow> string) \<Rightarrow> File list \<Rightarrow> UploadedFile list" where
  "onDrop random_id acceptedFiles =
     map (\<lambda>(i, f). \<lparr>uf_id = random_id i, uf_file = f, uf_name = file_name f, uf_size = file_size f,
                     uf_type = file_type f, uploadProgress = 100, uf_status = file_completed\<rparr>)
         (enumerate 0 acceptedFiles)"



section \<open>The pipeline orchestrator\<close>

text \<open>
  The pipeline runs on the server behind \<open>/api/generate-brief\<close>. The repository's files
  hold its callers (the two front ends above) and its documentation, not its code, so
  this section follows the specification's description of it.
\<close>

text \<open>Modelled from the spec: the agent roles, one stage adapter for each (the orchestrator's
  code is not among the files).\<close>

datatype agent =
    Anonymizer
  | LegalResearcher
  | ScientificResearcher
  | Reviewer
  | Drafter
  | Editor

text \<open>Modelled from the spec: the errors of a run, each tagged with the agent it comes from
  (the error types are not among the files).\<close>

datatype pipeline_error =
    ExternalServiceError agent
  | ConcurrencyTimeoutError agent

text \<open>Modelled from the spec: a researcher's output, its citations and its synthesis (the
  type is not among the files).\<close>

record ResearchResult =
  research_citations :: "string list"
  synthesis :: string

text \<open>Modelled from the spec: how a researcher's call ends; it returns its result, fails,
  or exceeds its per-call time bound (the call wrapper is not among the files).\<close>

datatype research_outcome =
    Returned ResearchResult
  | CallFailed
  | CallTimedOut

text \<open>Modelled from the spec: the stage adapters, \<open>invoke(input) -> output\<close>, as functions
  that may fail (\<open>None\<close>, reported as an \<open>ExternalServiceError\<close> of the agent); the
  adapters are not among the files.\<close>

record 'c adapters =
  anonymizer :: "'c \<Rightarrow> string option"
  legal_researcher :: "string \<Rightarrow> research_outcome"
  scientific_researcher :: "string \<Rightarrow> research_outcome"
  reviewer :: "ResearchResult \<Rightarrow> ResearchResult \<Rightarrow> string option"
  drafter :: "string \<Rightarrow> string option"
  editor :: "string \<Rightarrow> string option"

text \<open>Modelled from the spec: the Brief, of which the spec's example fixes the body (the
  Drafter's output followed by the Editor's) and the citations (those of both
  researchers); the server's Brief type is not among the files.\<close>

record Brief =
  body :: string
  brief_citations :: "string list"

text \<open>Modelled from the spec: a researcher's result slot, which is missing with the
  orchestrator. The spec describes a two-way fan-out at stage 3, each researcher writing
  to its own slot: not issued, in flight, or done with the call's outcome.\<close>

datatype handle = NotIssued | InFlight | Done research_outcome

text \<open>Modelled from the spec: where a run stands, stages 2 to 6 with what has been
  produced so far, or its end with a Brief or with an error (the orchestrator is not
  among the files).\<close>

datatype pipeline_phase =
    Stage2
  | Stage3 string
  | Stage4 ResearchResult ResearchResult
  | Stage5 ResearchResult ResearchResult string
  | Stage6 ResearchResult ResearchResult string
  | Succeeded Brief
  | Failed pipeline_error

text \<open>Modelled from the spec: what the missing orchestrator does, as a trace: \<open>Invoke\<close> a
  sequential stage, \<open>Issue\<close> a researcher's call, and \<open>Complete\<close>, the arrival of a
  call's outcome, which is the earliest moment an await on that call returns.\<close>

datatype pipeline_action = Invoke agent | Issue agent | Complete agent

text \<open>Modelled from the spec: the state of the missing orchestrator during one run.\<close>

record orchestrator =
  phase :: pipeline_phase
  legal_handle :: handle
  scientific_handle :: handle
  trace :: "pipeline_action list"

text \<open>Modelled from the spec: the state a run of the missing orchestrator starts in.\<close>

definition orchestrator_start :: orchestrator where
  "orchestrator_start =
     \<lparr>phase = Stage2, legal_handle = NotIssued, scientific_handle = NotIssued, trace = []\<rparr>"

text \<open>Modelled from the spec: the error of a researcher's outcome (the orchestrator's error
  handling is not among the files), an \<open>ExternalServiceError\<close> for a failed call and a
  \<open>ConcurrencyTimeoutError\<close> for one that exceeded its bound.\<close>

definition research_error :: "agent \<Rightarrow> research_outcome \<Rightarrow> pipeline_error option" where
  "research_error a r =
     (case r of
        Returned x \<Rightarrow> None
      | CallFailed \<Rightarrow> Some (ExternalServiceError a)
      | CallTimedOut \<Rightarrow> Some (ConcurrencyTimeoutError a))"

text \<open>Modelled from the spec: the joint await of stage 3, which is missing with the
  orchestrator. It blocks (the state is unchanged) until both outcomes have arrived;
  then the run goes on to stage 4 when both returned, and the whole Case is aborted
  when one of them failed or timed out.\<close>

definition join :: "orchestrator \<Rightarrow> orchestrator" where
  "join s =
     (case (legal_handle s, scientific_handle s) of
        (Done (Returned l), Done (Returned r)) \<Rightarrow> s\<lparr>phase := Stage4 l r\<rparr>
      | (Done l, Done r) \<Rightarrow>
          (case research_error LegalResearcher l of
             Some e \<Rightarrow> s\<lparr>phase := Failed e\<rparr>
           | None \<Rightarrow>
               (case research_error ScientificResearcher r of
                  Some e \<Rightarrow> s\<lparr>phase := Failed e\<rparr>
                | None \<Rightarrow> s))
      | _ \<Rightarrow> s)"

text \<open>Modelled from the spec: what drives a run of the missing orchestrator;
  it proceeds by itself, or the outcome of a call in flight arrives.\<close>

datatype tick = Proceed | LegalCompletes | ScientificCompletes

text \<open>Modelled from the spec: one step of a run of the missing orchestrator. The
  orchestrator proceeds (\<open>Proceed\<close>), or the outcome of a call in flight arrives
  (\<open>LegalCompletes\<close>, \<open>ScientificCompletes\<close>); the order of the arrivals is the
  environment's. Stage 2 calls the Anonymizer and, when
  it succeeds, issues both researcher calls at once; stage 3 is the joint await; stages
  4 to 6 call the Reviewer, the Drafter and the Editor in turn, each failure ending the
  run with the failing agent's error. The Reviewer's optional clarification calls are
  left out.
\<close>

fun orchestrator_step :: "'c adapters \<Rightarrow> 'c \<Rightarrow> orchestrator \<Rightarrow> tick \<Rightarrow> orchestrator" where
  "orchestrator_step ad c s Proceed =
     (case phase s of
        Stage2 \<Rightarrow>
          (case anonymizer ad c of
             None \<Rightarrow> s\<lparr>phase := Failed (ExternalServiceError Anonymizer),
                        trace := trace s @ [Invoke Anonymizer]\<rparr>
           | Some summary \<Rightarrow>
               s\<lparr>phase := Stage3 summary, legal_handle := InFlight, scientific_handle := InFlight,
                  trace := trace s @ [Invoke Anonymizer, Issue LegalResearcher, Issue ScientificResearcher]\<rparr>)
      | Stage3 summary \<Rightarrow> join s
      | Stage4 l r \<Rightarrow>
          (case reviewer ad l r of
             None \<Rightarrow> s\<lparr>phase := Failed (ExternalServiceError Reviewer), trace := trace s @ [Invoke Reviewer]\<rparr>
           | Some reconciled \<Rightarrow> s\<lparr>phase := Stage5 l r reconciled, trace := trace s @ [Invoke Reviewer]\<rparr>)
      | Stage5 l r reconciled \<Rightarrow>
          (case drafter ad reconciled of
             None \<Rightarrow> s\<lparr>phase := Failed (ExternalServiceError Drafter), trace := trace s @ [Invoke Drafter]\<rparr>
           | Some draft \<Rightarrow> s\<lparr>phase := Stage6 l r draft, trace := trace s @ [Invoke Drafter]\<rparr>)
      | Stage6 l r draft \<Rightarrow>
          (case editor ad draft of
             None \<Rightarrow> s\<lparr>phase := Failed (ExternalServiceError Editor), trace := trace s @ [Invoke Editor]\<rparr>
           | Some edited \<Rightarrow>
               s\<lparr>phase := Succeeded \<lparr>body = draft @ edited,
                                       brief_citations = research_citations l @ research_citations r\<rparr>,
                  trace := trace s @ [Invoke Editor]\<rparr>)
      | Succeeded b \<Rightarrow> s
      | Failed e \<Rightarrow> s)"
| "orchestrator_step ad c s LegalCompletes =
     (case (phase s, legal_handle s) of
        (Stage3 summary, InFlight) \<Rightarrow>
          s\<lparr>legal_handle := Done (legal_researcher ad summary),
             trace := trace s @ [Complete LegalResearcher]\<rparr>
      | _ \<Rightarrow> s)"
| "orchestrator_step ad c s ScientificCompletes =
     (case (phase s, scientific_handle s) of
        (Stage3 summary, InFlight) \<Rightarrow>
          s\<lparr>scientific_handle := Done (scientific_researcher ad summary),
             trace := trace s @ [Complete ScientificResearcher]\<rparr>
      | _ \<Rightarrow> s)"

text \<open>Modelled from the spec: \<open>run(case)\<close> of the missing orchestrator, the state a run
  of the pipeline on a Case has reached after the given steps.\<close>

definition run :: "'c adapters \<Rightarrow> 'c \<Rightarrow> tick list \<Rightarrow> orchestrator" where
  "run ad c ticks = foldl (orchestrator_step ad c) orchestrator_start ticks"

text \<open>Modelled from the spec: the stub adapters of the spec's example scenario, which echo
  fixed outputs at each stage (the repository has no stub of the server's agents).\<close>

definition stub_adapters :: "string adapters" where
  "stub_adapters =
     \<lparr>anonymizer = (\<lambda>c. Some ''summary''),
      legal_researcher = (\<lambda>s. Returned \<lparr>research_citations = [''Daubert v. Merrell Dow''],
                                          synthesis = ''legal''\<rparr>),
      scientific_researcher = (\<lambda>s. Returned \<lparr>research_citations = [''Ross 2022'', ''Herbst 2023''],
                                               synthesis = ''scientific''\<rparr>),
      reviewer = (\<lambda>l r. Some ''reconciled''),
      drafter = (\<lambda>s. Some ''draft''),
      editor = (\<lambda>s. Some ''edit'')\<rparr>"

section \<open>Vocabulary of the properties\<close>

text \<open>An observer that records the statuses it is handed, in order.\<close>

definition recording :: "BriefGenerationStatus \<Rightarrow> BriefGenerationStatus list \<Rightarrow> BriefGenerationStatus list" where
  "recording s seen = seen @ [s]"

text \<open>A promise with the time stamp of its response erased.\<close>

definition without_processingTime ::
  "(GenerateBriefResponse, ApiError) promise \<Rightarrow> (GenerateBriefResponse, ApiError) promise" where
  "without_processingTime p =
     (case p of
        Fulfilled r \<Rightarrow> Fulfilled (r\<lparr>metadata := (metadata r)\<lparr>processingTime := 0\<rparr>\<rparr>)
      | _ \<Rightarrow> p)"



text \<open>\<open>preceded_by a b xs\<close>: no \<open>b\<close> occurs in \<open>xs\<close> before the first \<open>a\<close>.\<close>

fun preceded_by :: "'a \<Rightarrow> 'a \<Rightarrow> 'a list \<Rightarrow> bool" where
  "preceded_by a b [] = True"
| "preceded_by a b (x # xs) = (x = a \<or> (x \<noteq> b \<and> preceded_by a b xs))"

text \<open>The invariants of a run of the orchestrator.\<close>

fun returned :: "handle \<Rightarrow> bool" where
  "returned (Done (Returned r)) = True"
| "returned h = False"

fun arrived :: "handle \<Rightarrow> bool" where
  "arrived (Done r) = True"
| "arrived h = False"

fun researching :: "pipeline_phase \<Rightarrow> bool" where
  "researching (Stage3 x) = True"
| "researching p = False"

fun past_research :: "pipeline_phase \<Rightarrow> bool" where
  "past_research (Stage4 l r) = True"
| "past_research (Stage5 l r x) = True"
| "past_research (Stage6 l r x) = True"
| "past_research (Succeeded b) = True"
| "past_research p = False"

definition fanned_out :: "orchestrator \<Rightarrow> bool" where
  "fanned_out s \<longleftrightarrow>
     (researching (phase s) \<longrightarrow>
        Issue LegalResearcher \<in> set (trace s) \<and> Issue ScientificResearcher \<in> set (trace s))
     \<and> (arrived (legal_handle s) \<longrightarrow> Complete LegalResearcher \<in> set (trace s))
     \<and> (arrived (scientific_handle s) \<longrightarrow> Complete ScientificResearcher \<in> set (trace s))
     \<and> (past_research (phase s) \<longrightarrow> returned (legal_handle s) \<and> returned (scientific_handle s))"

definition issued_first :: "orchestrator \<Rightarrow> bool" where
  "issued_first s \<longleftrightarrow>
     preceded_by (Issue LegalResearcher) (Complete LegalResearcher) (trace s)
     \<and> preceded_by (Issue ScientificResearcher) (Complete LegalResearcher) (trace s)
     \<and> preceded_by (Issue LegalResearcher) (Complete ScientificResearcher) (trace s)
     \<and> preceded_by (Issue ScientificResearcher) (Complete ScientificResearcher) (trace s)"

definition joined_first :: "orchestrator \<Rightarrow> bool" where
  "joined_first s \<longleftrightarrow>
     preceded_by (Complete LegalResearcher) (Invoke Reviewer) (trace s)
     \<and> preceded_by (Complete ScientificResearcher) (Invoke Reviewer) (trace s)
     \<and> preceded_by (Complete LegalResearcher) (Invoke Drafter) (trace s)
     \<and> preceded_by (Complete ScientificResearcher) (Invoke Drafter) (trace s)
     \<and> preceded_by (Complete LegalResearcher) (Invoke Editor) (trace s)
     \<and> preceded_by (Complete ScientificResearcher) (Invoke Editor) (trace s)"

definition results_kept :: "orchestrator \<Rightarrow> bool" where
  "results_kept s \<longleftrightarrow>
     (Invoke Reviewer \<in> set (trace s) \<or> Invoke Drafter \<in> set (trace s) \<or> Invoke Editor \<in> set (trace s)
        \<longrightarrow> \<not> researching (phase s) \<and> phase s \<noteq> Stage2
            \<and> returned (legal_handle s) \<and> returned (scientific_handle s))"

section \<open>Example inputs\<close>

text \<open>
  The page as the script finds it (no task tracked, an empty history, nothing written),
  and the generate form filled in.
\<close>

definition web_start :: web_state where
  "web_start =
     \<lparr>currentBriefTask = JNull, currentProcessTask = JNull, briefHistory = [],
      localStorage = Map.empty, page = (\<lambda>el. DText []), form = (\<lambda>el. []),
      file_input = [], alerts = [], requests = []\<rparr>"

definition filled_form :: "string \<Rightarrow> string" where
  "filled_form el =
     (if el = ''expert-name'' then ''Dr. A''
      else if el = ''strategy'' then ''challenge''
      else if el = ''motion-type'' then ''Daubert Motion to Exclude Expert Testimony''
      else [])"

text \<open>
  The application's initial state (the defaults of its \<open>useState\<close> calls), and the state
  of the spec's example Case: one PDF uploaded, a challenge to the expert Dr. A.
\<close>

definition app_initial :: app_state where
  "app_initial =
     \<lparr>uploadedFiles = [], selectedBriefType = None, selectedExpert = [],
      app_jurisdiction = ''Federal'', generationStatus = None, generatedBrief = JNull,
      app_strategicRecommendations = JNull, briefMetadata = None\<rparr>"

definition one_pdf :: File where
  "one_pdf = \<lparr>file_name = ''report.pdf'', file_type = ''application/pdf'', file_size = 52431\<rparr>"



definition app_ready :: app_state where
  "app_ready =
     app_initial\<lparr>uploadedFiles := onDrop (\<lambda>i. ''k3x9q2m1z'') [one_pdf],
                 selectedBriefType := Some daubert_motion, selectedExpert := ''Dr. A''\<rparr>"

definition example_request :: "BriefGenerationStatus list GenerateBriefRequest" where
  "example_request =
     \<lparr>briefType = daubert_motion, files = onDrop (\<lambda>i. ''k3x9q2m1z'') [one_pdf],
      expertName = ''Dr. A'', jurisdiction = ''Federal'', onProgress = recording\<rparr>"

text \<open>Payloads of the server: the POST's answer, the completion, two progress updates.\<close>

definition started :: jsval where
  "started = JObj [(''success'', JBool True)]"

definition finished :: jsval where
  "finished = JObj [(''success'', JBool True), (''brief_excerpt'', JStr ''MOTION TO EXCLUDE''),
                    (''full_result'', JObj [(''expert'', JStr ''Dr. A''), (''length'', JNum 5400)])]"

definition strategic_20 :: jsval where
  "strategic_20 = JObj [(''stage'', JStr ''Strategic analysis''), (''progress'', JNum 20),
                        (''agent'', JStr ''Claude Opus 4'')]"

definition legal_40 :: jsval where
  "legal_40 = JObj [(''stage'', JStr ''Legal research''), (''progress'', JNum 40)]"

text \<open>\<open>toUpperCase\<close> on ASCII text.\<close>

definition toUpperCase_char :: "char \<Rightarrow> char" where
  "toUpperCase_char c =
     (if 97 \<le> (of_char c :: nat) \<and> (of_char c :: nat) \<le> 122 then char_of ((of_char c :: nat) - 32) else c)"

definition toUpperCase_ascii :: "string \<Rightarrow> string" where
  "toUpperCase_ascii s = map toUpperCase_char s"

section \<open>Properties\<close>

lemmas example_defs = app_ready_def app_initial_def one_pdf_def example_request_def started_def
  finished_def strategic_20_def legal_40_def onDrop_def

lemmas run_defs = generateBrief_def generateBrief_start_def complete_response_def js_or_def
  progress_status_def literal_at_def progressMap_def recording_def Let_def

subsection \<open>The history of briefs\<close>




subsection \<open>Socket events of another task\<close>

text \<open>
  C9. A \<open>brief_progress\<close> or \<open>brief_complete\<close> event whose \<open>task_id\<close> is not (by \<open>===\<close>)
  the tracked brief task, and a \<open>processing_progress\<close> or \<open>processing_complete\<close> event
  whose \<open>task_id\<close> is not the tracked processing task, leaves the whole state of the page
  as it was, and its listener does not throw.
\<close>

theorem socket_event_of_other_task_changes_nothing:
  assumes "getProp data ''task_id'' = Inr t"
  shows "(\<not> strict_eq t (currentBriefTask st) \<longrightarrow>
            socket_listener upp stringify now (BriefProgress data) st = (st, None)
          \<and> socket_listener upp stringify now (BriefComplete data) st = (st, None))
       \<and> (\<not> strict_eq t (currentProcessTask st) \<longrightarrow>
            socket_listener upp stringify now (ProcessingProgress data) st = (st, None)
          \<and> socket_listener upp stringify now (ProcessingComplete data) st = (st, None))"
  using assms by (simp add: when_task_def)

theorem socket_event_of_other_task_witness:
  "getProp (JObj [(''task_id'', JStr ''task-2''), (''success'', JBool True)]) ''task_id'' = Inr (JStr ''task-2'')
   \<and> \<not> strict_eq (JStr ''task-2'') (currentBriefTask (web_start\<lparr>currentBriefTask := JStr ''task-1''\<rparr>))
   \<and> socket_listener updateUploadProgress (\<lambda>h. []) ''2025-07-22T00:00:00.000Z''
        (BriefComplete (JObj [(''task_id'', JStr ''task-2''), (''success'', JBool True)]))
        (web_start\<lparr>currentBriefTask := JStr ''task-1''\<rparr>)
       = (web_start\<lparr>currentBriefTask := JStr ''task-1''\<rparr>, None)"
  using socket_event_of_other_task_changes_nothing
    [of "JObj [(''task_id'', JStr ''task-2''), (''success'', JBool True)]" "JStr ''task-2''"
        "web_start\<lparr>currentBriefTask := JStr ''task-1''\<rparr>" updateUploadProgress "\<lambda>h. []"
        "''2025-07-22T00:00:00.000Z''"]
  by (simp add: web_start_def)

subsection \<open>Error translation\<close>

text \<open>
  C8. \<open>parseApiError\<close> throws on an error whose response has status 400 and no data:
  the fall-through of \<open>case 400\<close> reads \<open>data.message\<close> where every other branch reads
  \<open>data?.message\<close>. With status 500 the same response is translated to a
  \<open>SERVER_ERROR\<close>.
\<close>

theorem parseApiError_throws_on_400_without_data:
  "parseApiError onLine
     (JObj [(''message'', JStr ''Request failed with status code 400''),
            (''response'', JObj [(''status'', JNum 400), (''data'', JNull)])])
   = Inl TypeError
   \<and> parseApiError onLine
     (JObj [(''message'', JStr ''Request failed with status code 500''),
            (''response'', JObj [(''status'', JNum 500), (''data'', JNull)])])
   = Inr \<lparr>name = ''ApiError'', message = ''Server error'', code = Some ''SERVER_ERROR'',
          userMessage = Some ''An internal server error occurred.'',
          recoveryAction = Some ''Please try again later. If the issue persists, contact support.'',
          statusCode = JNum 500\<rparr>"
  by (simp add: parseApiError_def with_response_def by_status_def new_ApiError_def js_or_def)

subsection \<open>The guards of the two generate handlers\<close>

text \<open>
  The web page's \<open>handleGenerate\<close> does not look at the documents: with the form filled
  in and no file selected it posts the request and shows the progress panel.
\<close>

theorem handleGenerate_without_documents:
  "file_input (web_start\<lparr>form := filled_form\<rparr>) = []
   \<and> requests (fst (handleGenerate (web_start\<lparr>form := filled_form\<rparr>))) =
       [POST ''/api/generate-brief''
          (JObj [(''expert_name'', JStr ''Dr. A''), (''strategy'', JStr ''challenge''),
                 (''motion_type'', JStr ''Daubert Motion to Exclude Expert Testimony'')])]
   \<and> page (fst (handleGenerate (web_start\<lparr>form := filled_form\<rparr>)))
         (''generation-progress'', ''style.display'') = DText ''block''"
  by (simp add: web_start_def filled_form_def handleGenerate_def write_text_def
      updateBriefProgress_def write_val_def write_textContent_def nullish_def fetch_def Let_def)

text \<open>
  C5, as the code has it. In the React application, \<open>handleGenerateBrief\<close> returns at
  once when no brief type is chosen, no file is uploaded or the expert name is empty: no
  request is sent, no call is made, and the state (so the progress status) is unchanged;
  nothing is raised. In the web page, \<open>handleGenerate\<close> alerts and returns when the
  expert name, the strategy or the motion type is empty: no request is sent and nothing
  is written to the page.
\<close>

theorem handleGenerateBrief_guard:
  "(selectedBriefType st = None \<or> uploadedFiles st = [] \<or> selectedExpert st = []
      \<longrightarrow> handleGenerateBrief onLine events st = \<lparr>posted = [], call = None, app = st\<rparr>)
   \<and> (form w ''expert-name'' = [] \<or> form w ''strategy'' = [] \<or> form w ''motion-type'' = []
      \<longrightarrow> handleGenerate w = (w\<lparr>alerts := alerts w @ [Alert ''Please fill in all fields'']\<rparr>, None))"
  by (auto simp add: handleGenerateBrief_def handleGenerate_def js_alert_def split: option.splits)

theorem handleGenerateBrief_guard_witness:
  "(selectedBriefType app_initial = None \<or> uploadedFiles app_initial = [] \<or> selectedExpert app_initial = [])
   \<and> handleGenerateBrief True [] app_initial = \<lparr>posted = [], call = None, app = app_initial\<rparr>
   \<and> (form web_start ''expert-name'' = [] \<or> form web_start ''strategy'' = [] \<or> form web_start ''motion-type'' = [])
   \<and> handleGenerate web_start = (web_start\<lparr>alerts := alerts web_start @ [Alert ''Please fill in all fields'']\<rparr>, None)"
  using handleGenerateBrief_guard [of app_initial True "[]" web_start]
  by (simp add: web_start_def app_initial_def)

subsection \<open>Accepted uploads\<close>







subsection \<open>A call of generateBrief\<close>

lemma generateBrief_snoc:
  "generateBrief req onLine obs (events @ [(now, ev)]) =
     generateBrief_step req now onLine (generateBrief req onLine obs events) ev"
  by (simp add: generateBrief_def)

lemma settle_cases: "settle p q = (if p = Pending then q else p)"
  by (cases p) simp_all

lemma post_catch_result:
  "result (post_catch onLine error st) = result st
   \<or> (result st = Pending \<and> (\<exists>e. result (post_catch onLine error st) = Rejected e))"
  by (auto simp add: post_catch_def throw_def Let_def settle_cases split: sum.splits)

lemma step_result:
  "result (generateBrief_step req now onLine st ev) = result st
   \<or> (result st = Pending
       \<and> ((\<exists>data. ev = brief_complete data \<and> truthy (optProp data ''success'')
              \<and> result (generateBrief_step req now onLine st ev) = Fulfilled (complete_response now data))
          \<or> (\<exists>e. result (generateBrief_step req now onLine st ev) = Rejected e)))"
proof (cases ev)
  case (progress_update data)
  then show ?thesis by (simp add: throw_def split: sum.splits)
next
  case (brief_complete data)
  then show ?thesis
    by (cases data) (auto simp add: throw_def Let_def settle_cases split: sum.splits)
next
  case (post_fulfilled d)
  then show ?thesis
    using post_catch_result [of onLine _ "st\<lparr>post_outstanding := False\<rparr>"]
    by (auto simp add: Let_def split: sum.splits)
next
  case (post_rejected e)
  then show ?thesis
    using post_catch_result [of onLine e "st\<lparr>post_outstanding := False\<rparr>"]
    by auto
qed

lemma step_settled:
  "result st \<noteq> Pending \<Longrightarrow> result (generateBrief_step req now onLine st ev) = result st"
  using step_result [of req now onLine st ev] by auto

lemma foldl_settled:
  "result st \<noteq> Pending \<Longrightarrow>
   result (foldl (\<lambda>st (now, ev). generateBrief_step req now onLine st ev) st later) = result st"
  by (induction later arbitrary: st) (auto simp add: step_settled)

lemma generateBrief_settled_once:
  "result (generateBrief req onLine obs events) \<noteq> Pending \<Longrightarrow>
   result (generateBrief req onLine obs (events @ later)) = result (generateBrief req onLine obs events)"
  by (simp add: generateBrief_def foldl_settled)

lemma step_citations:
  "(\<forall>r. result st = Fulfilled r \<longrightarrow> citations (metadata r) = 10) \<Longrightarrow>
   result (generateBrief_step req now onLine st ev) = Fulfilled r \<Longrightarrow> citations (metadata r) = 10"
  using step_result [of req now onLine st ev] by (auto simp add: complete_response_def)

lemma generateBrief_citations:
  "result (generateBrief req onLine obs events) = Fulfilled r \<Longrightarrow> citations (metadata r) = 10"
proof (induction events arbitrary: r rule: rev_induct)
  case Nil
  then show ?case by (simp add: generateBrief_def generateBrief_start_def)
next
  case (snoc e events)
  obtain now ev where e: "e = (now, ev)" by (cases e)
  show ?case
    using snoc step_citations [of "generateBrief req onLine obs events" req now onLine ev r]
    by (simp add: e generateBrief_snoc)
qed

lemma truthy_getProp: "truthy (optProp d k) \<Longrightarrow> getProp d k = Inr (optProp d k)"
  by (cases d) simp_all



lemma result_app_step [simp]:
  "result (app_step req onLine st e) = result (generateBrief_step req (fst e) onLine st (snd e))"
  by (simp add: app_step_def Let_def)










subsection \<open>The citation count\<close>

text \<open>
  The stub researchers of the example return one citation each; the count in the
  metadata of the simulated Brief is not their sum.
\<close>

theorem citation_count_not_the_sum:
  "citations (metadata (snd (simulateGenerateBrief toUpperCase_ascii example_request []))) \<noteq>
     int (length [''Daubert v. Merrell Dow Pharmaceuticals, Inc., 509 U.S. 579 (1993)'']
          + length [''Ross et al., Frontiers in Human Neuroscience (2022)''])"
  by (simp add: simulateGenerateBrief_def Let_def)

text \<open>
  C3, as the code has it. The citation count of the Brief's metadata is fixed in the
  front end: 10 in every response \<open>generateBrief\<close> resolves with, 15 in that of
  \<open>simulateGenerateBrief\<close>, whatever the researchers returned.
\<close>

theorem citation_count_is_fixed:
  "(result (generateBrief req onLine obs events) = Fulfilled r \<longrightarrow> citations (metadata r) = 10)
   \<and> citations (metadata (snd (simulateGenerateBrief toUpperCase req obs))) = 15"
  by (simp add: generateBrief_citations simulateGenerateBrief_def Let_def)

theorem citation_count_is_fixed_witness:
  "result (generateBrief example_request True []
       [(1000, post_fulfilled started), (9000, brief_complete finished)])
     = Fulfilled \<lparr>brief = JStr ''MOTION TO EXCLUDE'', strategicRecommendations = JUndefined,
                  metadata = \<lparr>wordCount = JNum 5400, citations = 10, processingTime = 9000\<rparr>\<rparr>
   \<and> citations (metadata (snd (simulateGenerateBrief toUpperCase_ascii example_request []))) = 15"
  using citation_count_is_fixed
      [where req = example_request and onLine = True and obs = "[]"
         and events = "[(1000, post_fulfilled started), (9000, brief_complete finished)]"
         and r = "\<lparr>brief = JStr ''MOTION TO EXCLUDE'', strategicRecommendations = JUndefined,
                  metadata = \<lparr>wordCount = JNum 5400, citations = 10, processingTime = 9000\<rparr>\<rparr>"
         and toUpperCase = toUpperCase_ascii]
  by (simp add: example_defs run_defs)

subsection \<open>The order of progress events\<close>

lemma getProp_not_nullish: "\<not> nullish d \<Longrightarrow> getProp d k = Inr (optProp d k)"
  by (cases d) (simp_all add: nullish_def)

lemma progress_status_Inr:
  assumes "\<not> nullish d" and "convertible (optProp d ''stage'')"
  shows "\<exists>s. progress_status d = Inr s \<and> progress s = optProp d ''progress''"
  using assms
  by (auto simp add: progress_status_def getProp_not_nullish convertible_def split: sum.splits)

lemma foldl_progress_updates:
  assumes "onProgress req = recording" and "socket_open st"
    and "list_all (\<lambda>e. \<not> nullish (snd e) \<and> convertible (optProp (snd e) ''stage'')) tds"
  shows "map Inr (observer (foldl (\<lambda>st (now, ev). generateBrief_step req now onLine st ev) st
            (map (\<lambda>e. (fst e, progress_update (snd e))) tds))) =
         map Inr (observer st) @ map (\<lambda>e. progress_status (snd e)) tds
       \<and> map progress (observer (foldl (\<lambda>st (now, ev). generateBrief_step req now onLine st ev) st
            (map (\<lambda>e. (fst e, progress_update (snd e))) tds))) =
         map progress (observer st) @ map (\<lambda>e. optProp (snd e) ''progress'') tds"
  using assms
proof (induction tds arbitrary: st)
  case Nil
  then show ?case by simp
next
  case (Cons e tds)
  from Cons.prems obtain s where s: "progress_status (snd e) = Inr s" "progress s = optProp (snd e) ''progress''"
    using progress_status_Inr [of "snd e"] by auto
  let ?st1 = "st\<lparr>observer := observer st @ [s]\<rparr>"
  have step: "generateBrief_step req (fst e) onLine st (progress_update (snd e)) = ?st1"
    using Cons.prems s by (simp add: recording_def)
  have "socket_open ?st1" using Cons.prems by simp
  moreover have "list_all (\<lambda>e. \<not> nullish (snd e) \<and> convertible (optProp (snd e) ''stage'')) tds"
    using Cons.prems by simp
  ultimately show ?case
    using Cons.IH [of ?st1] Cons.prems(1) s by (simp add: step del: generateBrief_step.simps)
qed

lemma stages_emitted:
  "fst (simulateGenerateBrief toUpperCase req []) = stages" if "onProgress req = recording"
  using that by (simp add: simulateGenerateBrief_def Let_def stages_def recording_def)

text \<open>
  A progress update that arrives before the POST's answer is followed by the
  \<open>uploading\<close> status at 10 percent: the stages and the percentages go down.
\<close>

theorem progress_out_of_order:
  "\<not> sorted_wrt (\<lambda>a b. case (stage a, stage b) of
                          (Some x, Some y) \<Rightarrow> stage_index x < stage_index y | _ \<Rightarrow> False)
        (observer (generateBrief example_request True []
           [(1000, progress_update strategic_20), (1001, post_fulfilled started)]))
   \<and> \<not> sorted_wrt (\<lambda>a b. case (progress a, progress b) of
                             (JNum x, JNum y) \<Rightarrow> x \<le> y | _ \<Rightarrow> False)
        (observer (generateBrief example_request True []
           [(1000, progress_update strategic_20), (1001, post_fulfilled started)]))"
  by (simp add: example_defs run_defs)

text \<open>
  C4, as the code has it. \<open>simulateGenerateBrief\<close> hands its observer seven statuses,
  one for each of the stages it lists, in strictly increasing stage order and with
  increasing percentages. \<open>generateBrief\<close> hands on what arrives: when the POST's
  positive answer comes first and the progress updates after it, the observer sees the
  \<open>uploading\<close> status at 10 percent and then one status for each update, in the order
  of arrival and with the server's percentage.
\<close>

theorem progress_order:
  "(onProgress req = recording \<longrightarrow>
      map stage (fst (simulateGenerateBrief toUpperCase req [])) =
        map Some [uploading, strategic_analysis, legal_research, scientific_research,
                  brief_writing, final_review, completed]
      \<and> map progress (fst (simulateGenerateBrief toUpperCase req [])) =
        map JNum [20, 35, 50, 65, 80, 95, 100]
      \<and> sorted_wrt (\<lambda>a b. case (stage a, stage b) of
                             (Some x, Some y) \<Rightarrow> stage_index x < stage_index y | _ \<Rightarrow> False)
           (fst (simulateGenerateBrief toUpperCase req []))
      \<and> sorted_wrt (\<lambda>a b. case (progress a, progress b) of
                             (JNum x, JNum y) \<Rightarrow> x \<le> y | _ \<Rightarrow> False)
           (fst (simulateGenerateBrief toUpperCase req [])))
   \<and> (onProgress req = recording \<and> truthy (optProp ok ''success'')
        \<and> list_all (\<lambda>e. \<not> nullish (snd e) \<and> convertible (optProp (snd e) ''stage'')) tds \<longrightarrow>
      map Inr (observer (generateBrief req onLine []
          ((t0, post_fulfilled ok) # map (\<lambda>e. (fst e, progress_update (snd e))) tds))) =
        Inr \<lparr>stage = Some uploading, progress = JNum 10, currentAgent = JStr ''System'',
             status_message = JStr ''Processing request...''\<rparr>
        # map (\<lambda>e. progress_status (snd e)) tds
      \<and> map progress (observer (generateBrief req onLine []
          ((t0, post_fulfilled ok) # map (\<lambda>e. (fst e, progress_update (snd e))) tds))) =
        JNum 10 # map (\<lambda>e. optProp (snd e) ''progress'') tds)"
proof (intro conjI impI)
  assume cb: "onProgress req = recording"
  show "map stage (fst (simulateGenerateBrief toUpperCase req [])) =
        map Some [uploading, strategic_analysis, legal_research, scientific_research,
                  brief_writing, final_review, completed]"
    by (simp add: stages_emitted [OF cb] stages_def)
  show "map progress (fst (simulateGenerateBrief toUpperCase req [])) =
        map JNum [20, 35, 50, 65, 80, 95, 100]"
    by (simp add: stages_emitted [OF cb] stages_def)
  show "sorted_wrt (\<lambda>a b. case (stage a, stage b) of
                             (Some x, Some y) \<Rightarrow> stage_index x < stage_index y | _ \<Rightarrow> False)
           (fst (simulateGenerateBrief toUpperCase req []))"
    by (simp add: stages_emitted [OF cb] stages_def)
  show "sorted_wrt (\<lambda>a b. case (progress a, progress b) of
                             (JNum x, JNum y) \<Rightarrow> x \<le> y | _ \<Rightarrow> False)
           (fst (simulateGenerateBrief toUpperCase req []))"
    by (simp add: stages_emitted [OF cb] stages_def)
next
  assume a: "onProgress req = recording \<and> truthy (optProp ok ''success'')
        \<and> list_all (\<lambda>e. \<not> nullish (snd e) \<and> convertible (optProp (snd e) ''stage'')) tds"
  let ?st1 = "(generateBrief_start [])\<lparr>post_outstanding := False,
      observer := [\<lparr>stage = Some uploading, progress = JNum 10, currentAgent = JStr ''System'',
             status_message = JStr ''Processing request...''\<rparr>]\<rparr>"
  have first: "generateBrief_step req t0 onLine (generateBrief_start []) (post_fulfilled ok) = ?st1"
    using a by (simp add: generateBrief_start_def truthy_getProp recording_def)
  have open1: "socket_open ?st1" by (simp add: generateBrief_start_def)
  from a have cb: "onProgress req = recording"
    and ok: "list_all (\<lambda>e. \<not> nullish (snd e) \<and> convertible (optProp (snd e) ''stage'')) tds"
    by simp_all
  note fw = foldl_progress_updates [OF cb open1 ok, of onLine]
  show "map Inr (observer (generateBrief req onLine []
          ((t0, post_fulfilled ok) # map (\<lambda>e. (fst e, progress_update (snd e))) tds))) =
        Inr \<lparr>stage = Some uploading, progress = JNum 10, currentAgent = JStr ''System'',
             status_message = JStr ''Processing request...''\<rparr>
        # map (\<lambda>e. progress_status (snd e)) tds"
    using fw by (simp add: generateBrief_def first del: generateBrief_step.simps)
  show "map progress (observer (generateBrief req onLine []
          ((t0, post_fulfilled ok) # map (\<lambda>e. (fst e, progress_update (snd e))) tds))) =
        JNum 10 # map (\<lambda>e. optProp (snd e) ''progress'') tds"
    using fw by (simp add: generateBrief_def first del: generateBrief_step.simps)
qed

theorem progress_order_witness:
  "onProgress example_request = recording
   \<and> truthy (optProp started ''success'')
   \<and> list_all (\<lambda>e. \<not> nullish (snd e) \<and> convertible (optProp (snd e) ''stage''))
        [(1500 :: int, strategic_20), (4000, legal_40)]
   \<and> map stage (fst (simulateGenerateBrief toUpperCase_ascii example_request [])) =
        map Some [uploading, strategic_analysis, legal_research, scientific_research,
                  brief_writing, final_review, completed]
   \<and> map progress (observer (generateBrief example_request True []
          ((1000, post_fulfilled started)
           # map (\<lambda>e. (fst e, progress_update (snd e))) [(1500, strategic_20), (4000, legal_40)]))) =
        [JNum 10, JNum 20, JNum 40]"
  using progress_order
      [of example_request toUpperCase_ascii started "[(1500, strategic_20), (4000, legal_40)]" True 1000]
  by (simp add: example_defs nullish_def convertible_def)

subsection \<open>Runs on equal inputs\<close>

lemma without_processingTime_Pending [simp]:
  "without_processingTime p = Pending \<longleftrightarrow> p = Pending"
  "Pending = without_processingTime p \<longleftrightarrow> p = Pending"
  by (cases p; simp add: without_processingTime_def)+










subsection \<open>The fan-out of the orchestrator\<close>

lemma preceded_by_append:
  "preceded_by a b (xs @ ys) \<longleftrightarrow> preceded_by a b xs \<and> (a \<in> set xs \<or> preceded_by a b ys)"
  by (induction xs) auto

lemma fanned_out_step: "fanned_out s \<Longrightarrow> fanned_out (orchestrator_step ad c s t)"
  by (cases t; cases "phase s"; cases "legal_handle s"; cases "scientific_handle s")
     (simp_all add: fanned_out_def join_def research_error_def
        split: option.splits research_outcome.splits)

lemma issued_first_step:
  "fanned_out s \<Longrightarrow> issued_first s \<Longrightarrow> issued_first (orchestrator_step ad c s t)"
  by (cases t; cases "phase s"; cases "legal_handle s"; cases "scientific_handle s")
     (simp_all add: fanned_out_def issued_first_def join_def research_error_def preceded_by_append
        split: option.splits research_outcome.splits)

lemma joined_first_step:
  "fanned_out s \<Longrightarrow> joined_first s \<Longrightarrow> joined_first (orchestrator_step ad c s t)"
  by (cases t; cases "phase s"; cases "legal_handle s"; cases "scientific_handle s")
     (simp_all add: fanned_out_def joined_first_def join_def research_error_def preceded_by_append
        split: option.splits research_outcome.splits)

lemma results_kept_step:
  "fanned_out s \<Longrightarrow> results_kept s \<Longrightarrow> results_kept (orchestrator_step ad c s t)"
  by (cases t; cases "phase s"; cases "legal_handle s"; cases "scientific_handle s")
     (simp_all add: fanned_out_def results_kept_def join_def research_error_def
        split: option.splits research_outcome.splits)

lemma invariants_foldl:
  "fanned_out s \<and> issued_first s \<and> joined_first s \<and> results_kept s \<Longrightarrow>
   fanned_out (foldl (orchestrator_step ad c) s ticks)
   \<and> issued_first (foldl (orchestrator_step ad c) s ticks)
   \<and> joined_first (foldl (orchestrator_step ad c) s ticks)
   \<and> results_kept (foldl (orchestrator_step ad c) s ticks)"
  by (induction ticks arbitrary: s)
     (simp_all add: fanned_out_step issued_first_step joined_first_step results_kept_step)

lemma invariants_run:
  "issued_first (run ad c ticks) \<and> joined_first (run ad c ticks) \<and> results_kept (run ad c ticks)"
proof -
  have "fanned_out orchestrator_start \<and> issued_first orchestrator_start
        \<and> joined_first orchestrator_start \<and> results_kept orchestrator_start"
    by (simp add: fanned_out_def issued_first_def joined_first_def results_kept_def orchestrator_start_def)
  from invariants_foldl [OF this, of ad c ticks] show ?thesis by (simp add: run_def)
qed

lemma returned_iff: "returned h \<longleftrightarrow> (\<exists>r. h = Done (Returned r))"
  by (cases h rule: returned.cases) simp_all

text \<open>
  C2. In every run of the orchestrator, whatever the adapters return and in whatever
  order the researchers' outcomes arrive: both researcher calls are issued before the
  outcome of either is awaited; the Reviewer and the Drafter are invoked only after both
  outcomes have arrived; and when the Drafter has been invoked, both researchers have
  returned a result.
\<close>

theorem drafting_waits_for_both_researchers:
  "preceded_by (Issue LegalResearcher) (Complete LegalResearcher) (trace (run ad c ticks))
   \<and> preceded_by (Issue ScientificResearcher) (Complete LegalResearcher) (trace (run ad c ticks))
   \<and> preceded_by (Issue LegalResearcher) (Complete ScientificResearcher) (trace (run ad c ticks))
   \<and> preceded_by (Issue ScientificResearcher) (Complete ScientificResearcher) (trace (run ad c ticks))
   \<and> preceded_by (Complete LegalResearcher) (Invoke Reviewer) (trace (run ad c ticks))
   \<and> preceded_by (Complete ScientificResearcher) (Invoke Reviewer) (trace (run ad c ticks))
   \<and> preceded_by (Complete LegalResearcher) (Invoke Drafter) (trace (run ad c ticks))
   \<and> preceded_by (Complete ScientificResearcher) (Invoke Drafter) (trace (run ad c ticks))
   \<and> (Invoke Drafter \<in> set (trace (run ad c ticks)) \<longrightarrow>
        (\<exists>l r. legal_handle (run ad c ticks) = Done (Returned l)
             \<and> scientific_handle (run ad c ticks) = Done (Returned r)))"
  using invariants_run [of ad c ticks]
  by (simp add: issued_first_def joined_first_def results_kept_def returned_iff)

theorem drafting_waits_for_both_researchers_witness:
  "Invoke Drafter \<in> set (trace (run stub_adapters ''case''
      [Proceed, ScientificCompletes, Proceed, LegalCompletes, Proceed, Proceed, Proceed, Proceed]))
   \<and> trace (run stub_adapters ''case''
      [Proceed, ScientificCompletes, Proceed, LegalCompletes, Proceed, Proceed, Proceed, Proceed]) =
     [Invoke Anonymizer, Issue LegalResearcher, Issue ScientificResearcher,
      Complete ScientificResearcher, Complete LegalResearcher,
      Invoke Reviewer, Invoke Drafter, Invoke Editor]
   \<and> legal_handle (run stub_adapters ''case''
      [Proceed, ScientificCompletes, Proceed, LegalCompletes, Proceed, Proceed, Proceed, Proceed]) =
     Done (Returned \<lparr>research_citations = [''Daubert v. Merrell Dow''], synthesis = ''legal''\<rparr>)"
  using drafting_waits_for_both_researchers [of stub_adapters "''case''"
      "[Proceed, ScientificCompletes, Proceed, LegalCompletes, Proceed, Proceed, Proceed, Proceed]"]
  by (simp add: run_def orchestrator_start_def stub_adapters_def join_def)

end
